theory Spec2Isabelle
  imports Complex_Main "HOL-Library.Sublist"
begin

section \<open>Python values used by the orchestration core\<close>

text \<open>
  Confidence scores are Python floats. They are modelled as reals: the code only adds and
  subtracts decimal constants, divides once, and compares; every comparison against a
  threshold is between literals that a float represents identically on both sides, and
  \<open>max\<close>/\<open>min\<close> return one of their arguments. Rounding of the sums themselves is not
  modelled.

  Strings are character lists. \<open>str.lower()\<close> is modelled on the ASCII letters, which is where
  every keyword of the code lives; \<open>w in s\<close> on strings is the contiguous-substring test.
\<close>

definition lower_char :: "char \<Rightarrow> char" where
  "lower_char c =
     (case map_of (zip ''ABCDEFGHIJKLMNOPQRSTUVWXYZ'' ''abcdefghijklmnopqrstuvwxyz'') c of
        None \<Rightarrow> c
      | Some l \<Rightarrow> l)"

definition lower :: "string \<Rightarrow> string" where
  "lower s = map lower_char s"

fun py_in :: "string \<Rightarrow> string \<Rightarrow> bool" where
  "py_in w [] = (w = [])"
| "py_in w (c # cs) = (prefix w (c # cs) \<or> py_in w cs)"

text \<open>\<open>any(word in s for word in ws)\<close>\<close>

definition any_in :: "string list \<Rightarrow> string \<Rightarrow> bool" where
  "any_in ws s = list_ex (\<lambda>word. py_in word s) ws"

text \<open>\<open>d.get(key, default)\<close> on an optional entry of a dict.\<close>

definition get_or :: "'a option \<Rightarrow> 'a \<Rightarrow> 'a" where
  "get_or v dflt = (case v of None \<Rightarrow> dflt | Some x \<Rightarrow> x)"

text \<open>\<open>sum\<close> of a list of booleans.\<close>

definition sum_bools :: "bool list \<Rightarrow> nat" where
  "sum_bools bs = length (filter (\<lambda>b. b) bs)"

text \<open>How an f-string renders the result of \<open>d.get(key)\<close>.\<close>

definition fmt :: "string option \<Rightarrow> string" where
  "fmt v = get_or v ''None''"

datatype exn =
    KeyError string
  | GraphRecursionError
  | GatewayError string

fun str_exn :: "exn \<Rightarrow> string" where
  "str_exn (KeyError k) = [CHR 0x27] @ k @ [CHR 0x27]"
| "str_exn GraphRecursionError = ''Recursion limit reached without hitting a stop condition''"
| "str_exn (GatewayError msg) = msg"

section \<open>config/settings.py\<close>

text \<open>
  The orchestrator reads its thresholds with \<open>getattr(self.config, name, default)\<close>, so an
  attribute may be absent from the object it is given; \<open>Config\<close> is the class with its
  declared defaults.
\<close>

record config =
  MAX_ITERATIONS :: "int option"
  CONFIDENCE_THRESHOLD :: "real option"
  HUMAN_ESCALATION_THRESHOLD :: "real option"

definition Config :: config where
  "Config = \<lparr> MAX_ITERATIONS = Some 10,
              CONFIDENCE_THRESHOLD = Some 0.8,
              HUMAN_ESCALATION_THRESHOLD = Some 0.6 \<rparr>"

section \<open>core/model\_capability.py\<close>

datatype ModelCapability = REASONING | EMPATHY | SPATIAL | GENERAL | URGENT | COORDINATION

datatype TaskType =
    ROUTE_OPTIMIZATION
  | CUSTOMER_COMMUNICATION
  | STRATEGIC_PLANNING
  | SENTIMENT_ANALYSIS
  | EMERGENCY_RESPONSE

fun TaskType_value :: "TaskType \<Rightarrow> string" where
  "TaskType_value ROUTE_OPTIMIZATION = ''route_optimization''"
| "TaskType_value CUSTOMER_COMMUNICATION = ''customer_communication''"
| "TaskType_value STRATEGIC_PLANNING = ''strategic_planning''"
| "TaskType_value SENTIMENT_ANALYSIS = ''sentiment_analysis''"
| "TaskType_value EMERGENCY_RESPONSE = ''emergency_response''"

definition task_model_mapping :: "(TaskType \<times> string) list" where
  "task_model_mapping =
     [(ROUTE_OPTIMIZATION, ''qwen/qwen3-4b-thinking-2507''),
      (CUSTOMER_COMMUNICATION, ''microsoft/phi-4-mini-reasoning''),
      (STRATEGIC_PLANNING, ''deepseek/deepseek-r1-0528-qwen3-8b''),
      (SENTIMENT_ANALYSIS, ''google/gemma-3-4b''),
      (EMERGENCY_RESPONSE, ''qwen/qwen3-1.7b'')]"

definition agent_task_mapping :: "(string \<times> (string \<times> TaskType) list) list" where
  "agent_task_mapping =
     [(''grabfood'',
         [(''primary'', ROUTE_OPTIMIZATION),
          (''customer_comm'', CUSTOMER_COMMUNICATION),
          (''fallback'', EMERGENCY_RESPONSE)]),
      (''grabexpress'',
         [(''primary'', STRATEGIC_PLANNING),
          (''spatial'', ROUTE_OPTIMIZATION),
          (''fallback'', EMERGENCY_RESPONSE)]),
      (''customer_service'',
         [(''primary'', CUSTOMER_COMMUNICATION),
          (''sentiment'', SENTIMENT_ANALYSIS),
          (''fallback'', EMERGENCY_RESPONSE)]),
      (''orchestrator'',
         [(''primary'', STRATEGIC_PLANNING),
          (''coordination'', ROUTE_OPTIMIZATION)])]"

definition urgency_model_map :: "(string \<times> string) list" where
  "urgency_model_map =
     [(''urgent'', ''qwen/qwen3-1.7b''),
      (''medium'', ''microsoft/phi-4-mini-reasoning''),
      (''complex'', ''deepseek/deepseek-r1-0528-qwen3-8b''),
      (''customer'', ''microsoft/phi-4-mini-reasoning''),
      (''spatial'', ''qwen/qwen3-4b-thinking-2507'')]"

definition get_model_by_urgency :: "string \<Rightarrow> string" where
  "get_model_by_urgency urgency_level =
     get_or (map_of urgency_model_map urgency_level) ''qwen/qwen3-4b''"

definition get_model_for_agent :: "string \<Rightarrow> string \<Rightarrow> string" where
  "get_model_for_agent agent_type task_type =
     (case map_of agent_task_mapping agent_type of
        Some tasks \<Rightarrow>
          (case map_of tasks task_type of
             Some task \<Rightarrow>
               (case map_of task_model_mapping task of
                  Some m \<Rightarrow> m
                | None \<Rightarrow> ''qwen/qwen3-4b'')
           | None \<Rightarrow> ''qwen/qwen3-4b'')
      | None \<Rightarrow> ''qwen/qwen3-4b'')"

definition get_model_for_task :: "TaskType \<Rightarrow> string" where
  "get_model_for_task task = get_or (map_of task_model_mapping task) ''qwen/qwen3-4b''"

text \<open>
  A response of the language-model manager, or one of the smaller dicts the orchestrator
  substitutes for it; a key that a dict does not carry is \<open>None\<close>.
\<close>

record llm_response =
  r_content :: string
  r_provider :: "string option"
  r_active_model :: "string option"
  r_optimal_model :: "string option"
  r_agent_type :: "string option"
  r_urgency :: "string option"
  r_confidence :: real
  r_error :: "string option"

text \<open>
  The disruption dict (also the \<open>problem_context\<close> of the router and the scheduler). The
  keys are those the core reads; \<open>None\<close> is an absent key. \<open>analysis\<close> and
  \<open>specialist_briefing\<close> are written by the workflow.
\<close>

record disruption_dict =
  d_id :: "string option"
  description :: "string option"
  service_type :: "string option"
  location :: "string option"
  urgency :: "string option"
  severity :: "string option"
  affected_orders :: "int option"
  package_value :: "int option"
  package_type :: "string option"
  fragile :: "bool option"
  customer_sentiment :: "string option"
  analysis :: "llm_response option"
  specialist_briefing :: "llm_response option"

record task_info =
  ti_task :: TaskType
  ti_model :: string
  ti_priority :: string

record task_analysis =
  recommended_tasks :: "task_info list"
  total_tasks :: nat
  models_needed :: "string set"

text \<open>
  \<open>LogisticsModelManager.analyze_problem_requirements\<close>. \<open>models_needed\<close> is
  \<open>list(set(...))\<close>, whose order Python does not fix; it is kept as the set.
\<close>

definition analyze_problem_requirements :: "disruption_dict \<Rightarrow> task_analysis" where
  "analyze_problem_requirements problem_context =
     (let description' = lower (get_or (description problem_context) '''');
          urgency' = get_or (urgency problem_context) ''medium'';
          recommended = [];
          recommended =
            (if any_in [''traffic'', ''route'', ''location'', ''delivery''] description'
             then recommended @
                  [\<lparr> ti_task = ROUTE_OPTIMIZATION,
                     ti_model = get_model_for_task ROUTE_OPTIMIZATION,
                     ti_priority = ''high'' \<rparr>]
             else recommended);
          recommended =
            (if any_in [''customer'', ''notification'', ''communication''] description'
             then recommended @
                  [\<lparr> ti_task = CUSTOMER_COMMUNICATION,
                     ti_model = get_model_for_task CUSTOMER_COMMUNICATION,
                     ti_priority = ''high'' \<rparr>]
             else recommended);
          recommended =
            (if any_in [''angry'', ''frustrated'', ''complaint''] description'
             then recommended @
                  [\<lparr> ti_task = SENTIMENT_ANALYSIS,
                     ti_model = get_model_for_task SENTIMENT_ANALYSIS,
                     ti_priority = ''medium'' \<rparr>]
             else recommended);
          recommended =
            (if length recommended > 1 \<or> urgency' \<in> set [''high'', ''complex'']
             then recommended @
                  [\<lparr> ti_task = STRATEGIC_PLANNING,
                     ti_model = get_model_for_task STRATEGIC_PLANNING,
                     ti_priority = ''high'' \<rparr>]
             else recommended);
          recommended =
            (if urgency' = ''high'' \<or> py_in ''emergency'' description'
             then recommended @
                  [\<lparr> ti_task = EMERGENCY_RESPONSE,
                     ti_model = get_model_for_task EMERGENCY_RESPONSE,
                     ti_priority = ''critical'' \<rparr>]
             else recommended)
      in \<lparr> recommended_tasks = recommended,
           total_tasks = length recommended,
           models_needed = set (map ti_model recommended) \<rparr>)"

section \<open>core/llm\_manager.py: the confidence of a generated text\<close>

definition quality_indicators :: "(string \<times> string list) list" where
  "quality_indicators =
     [(''grabfood'', [''restaurant'', ''delivery'', ''food'', ''temperature'', ''quality'']),
      (''grabexpress'', [''package'', ''urgent'', ''secure'', ''delivery'', ''address'']),
      (''customer_service'', [''understand'', ''sorry'', ''help'', ''solution'', ''resolve'']),
      (''orchestrator'', [''coordinate'', ''assign'', ''prioritize'', ''allocate'', ''manage''])]"

definition uncertainty_words :: "string list" where
  "uncertainty_words = [''uncertain'', ''maybe'', ''possibly'', ''might'', ''unclear'']"

definition calculate_confidence :: "string \<Rightarrow> string \<Rightarrow> real" where
  "calculate_confidence content agent_type =
     (let base_confidence = 0.8;
          base_confidence =
            (if length content > 100 then base_confidence + 0.05
             else if length content < 50 then base_confidence - 0.1
             else base_confidence);
          indicators = get_or (map_of quality_indicators agent_type) [];
          base_confidence =
            (if any_in indicators (lower content) then base_confidence + 0.1
             else base_confidence);
          base_confidence =
            (if any_in uncertainty_words (lower content) then base_confidence - 0.15
             else base_confidence)
      in max 0.1 (min 0.95 base_confidence))"

section \<open>agents/service\_agents.py: urgency classification\<close>

text \<open>
  The task dict handed to a specialist. In the workflow it is the disruption dict extended
  with the description under the key \<open>disruption\<close>; the customer-communication step builds
  a small one of its own. The keys are those the classifiers read.
\<close>

record task =
  t_disruption :: "string option"
  t_customer_issue :: "string option"
  t_service_type :: "string option"
  t_urgency :: "string option"
  t_severity :: "string option"
  t_affected_orders :: "int option"
  t_package_value :: "int option"
  t_package_type :: "string option"
  t_fragile :: "bool option"
  t_sentiment :: "string option"

definition food_urgent_factors :: "task \<Rightarrow> bool list" where
  "food_urgent_factors task =
     [t_urgency task = Some ''high'',
      get_or (t_affected_orders task) 0 > 10,
      py_in ''food poisoning'' (lower (get_or (t_disruption task) '''')),
      py_in ''temperature'' (lower (get_or (t_disruption task) '''')),
      py_in ''contamination'' (lower (get_or (t_disruption task) '''')),
      py_in ''expired'' (lower (get_or (t_disruption task) ''''))]"

definition food_complex_factors :: "task \<Rightarrow> bool list" where
  "food_complex_factors task =
     [get_or (t_affected_orders task) 0 > 5,
      py_in ''multiple'' (lower (get_or (t_disruption task) '''')),
      t_severity task = Some ''high'',
      py_in ''restaurant'' (lower (get_or (t_disruption task) ''''))
        \<and> py_in ''closed'' (lower (get_or (t_disruption task) ''''))]"

text \<open>\<open>GrabFoodAgent._determine_urgency\<close>\<close>

definition GrabFoodAgent_determine_urgency :: "task \<Rightarrow> string" where
  "GrabFoodAgent_determine_urgency task =
     (if sum_bools (food_urgent_factors task) \<ge> 2 then ''urgent''
      else if sum_bools (food_complex_factors task) \<ge> 2 then ''complex''
      else ''medium'')"

definition express_urgent_factors :: "task \<Rightarrow> bool list" where
  "express_urgent_factors task =
     [t_urgency task = Some ''high'',
      get_or (t_package_value task) 0 > 50000,
      py_in ''medical'' (lower (get_or (t_package_type task) '''')),
      py_in ''emergency'' (lower (get_or (t_disruption task) '''')),
      py_in ''time-sensitive'' (lower (get_or (t_disruption task) ''''))]"

definition express_complex_factors :: "task \<Rightarrow> bool list" where
  "express_complex_factors task =
     [get_or (t_fragile task) False,
      py_in ''multiple'' (lower (get_or (t_disruption task) '''')),
      get_or (t_package_value task) 0 > 10000,
      py_in ''wrong address'' (lower (get_or (t_disruption task) ''''))]"

text \<open>\<open>GrabExpressAgent._determine_urgency\<close>\<close>

definition GrabExpressAgent_determine_urgency :: "task \<Rightarrow> string" where
  "GrabExpressAgent_determine_urgency task =
     (if sum_bools (express_urgent_factors task) \<ge> 2 then ''urgent''
      else if sum_bools (express_complex_factors task) \<ge> 2 then ''complex''
      else ''medium'')"

text \<open>
  The keyword signals among the urgent factors: how many of the agent's urgent keywords the
  task's description holds.
\<close>

definition food_urgent_keywords :: "string list" where
  "food_urgent_keywords = [''food poisoning'', ''temperature'', ''contamination'', ''expired'']"

definition express_urgent_keywords :: "string list" where
  "express_urgent_keywords = [''emergency'', ''time-sensitive'']"

definition keywords_in_description :: "string list \<Rightarrow> task \<Rightarrow> nat" where
  "keywords_in_description ws task =
     length (filter (\<lambda>w. py_in w (lower (get_or (t_disruption task) ''''))) ws)"

section \<open>core/llm\_manager.py: the backend gateway\<close>

record gw_request =
  req_model :: string
  req_messages :: "(string \<times> string) list"
  req_temperature :: real
  req_max_tokens :: int

type_synonym gateway = "nat \<Rightarrow> gw_request \<Rightarrow> string + string"

record lm_state =
  current_active_model :: string
  requests :: "gw_request list"

definition LMStudioManager_init :: lm_state where
  "LMStudioManager_init = \<lparr> current_active_model = ''qwen/qwen3-4b'', requests = [] \<rparr>"

definition chat_completions_create ::
  "gateway \<Rightarrow> gw_request \<Rightarrow> lm_state \<Rightarrow> (exn + string) \<times> lm_state" where
  "chat_completions_create gw request lm =
     ((case gw (length (requests lm)) request of
         Inl msg \<Rightarrow> Inl (GatewayError msg)
       | Inr text \<Rightarrow> Inr text),
      lm\<lparr> requests := requests lm @ [request] \<rparr>)"

definition get_optimal_model_for_agent :: "string \<Rightarrow> string \<Rightarrow> string" where
  "get_optimal_model_for_agent agent_type urgency' =
     (if urgency' = ''urgent'' then get_model_by_urgency ''urgent''
      else if urgency' = ''complex'' then get_model_by_urgency ''complex''
      else get_model_for_agent agent_type ''primary'')"

definition base_prompts :: "(string \<times> string) list" where
  "base_prompts =
     [(''grabfood'', ''You are a GrabFood delivery specialist with expertise in food delivery logistics.''),
      (''grabexpress'', ''You are a GrabExpress package delivery expert specializing in urgent deliveries.''),
      (''customer_service'', ''You are a customer service specialist trained in empathetic communication.''),
      (''orchestrator'', ''You are a logistics operations coordinator managing multiple delivery agents.'')]"

definition urgency_modifiers :: "(string \<times> string) list" where
  "urgency_modifiers =
     [(''urgent'', '' URGENT SITUATION: Prioritize immediate action and quick resolution.''),
      (''medium'', '' STANDARD OPERATION: Provide thorough analysis and solutions.''),
      (''complex'', '' COMPLEX SCENARIO: Use detailed reasoning and consider multiple factors.'')]"

definition get_agent_system_prompt :: "string \<Rightarrow> string \<Rightarrow> string" where
  "get_agent_system_prompt agent_type urgency' =
     (let base = get_or (map_of base_prompts agent_type) ''You are a helpful logistics assistant.'';
          modifier = get_or (map_of urgency_modifiers urgency') ''''
      in base @ modifier)"

definition get_temperature_for_agent :: "string \<Rightarrow> real" where
  "get_temperature_for_agent agent_type =
     get_or (map_of [(''grabfood'', 0.4), (''grabexpress'', 0.3),
                     (''customer_service'', 0.7), (''orchestrator'', 0.5)] agent_type) 0.5"

definition get_max_tokens_for_agent :: "string \<Rightarrow> int" where
  "get_max_tokens_for_agent agent_type =
     get_or (map_of [(''grabfood'', 600), (''grabexpress'', 500),
                     (''customer_service'', 800), (''orchestrator'', 400)] agent_type) 600"

definition fallback_responses :: "(string \<times> string) list" where
  "fallback_responses =
     [(''grabfood'', ''Food delivery analysis temporarily unavailable. Escalating to human food delivery coordinator.''),
      (''grabexpress'', ''Express delivery system offline. Switching to standard delivery protocols.''),
      (''customer_service'', ''We're experiencing technical difficulties but are working to resolve your issue promptly.''),
      (''orchestrator'', ''Coordination system temporarily offline. Switching to manual oversight mode.'')]"

definition fallback_response :: "string \<Rightarrow> string \<Rightarrow> string \<Rightarrow> llm_response" where
  "fallback_response prompt agent_type err =
     \<lparr> r_content = get_or (map_of fallback_responses agent_type) ''System temporarily unavailable.'',
       r_provider = Some ''lm_studio_fallback'',
       r_active_model = Some ''fallback'',
       r_optimal_model = None,
       r_agent_type = Some agent_type,
       r_urgency = None,
       r_confidence = 0.2,
       r_error = Some err \<rparr>"

text \<open>
  The arguments of \<open>self.client.chat.completions.create\<close> as \<open>generate_response_for_agent\<close>
  assembles them. The model sent is \<open>self.current_active_model\<close>.
\<close>

definition agent_request ::
  "lm_state \<Rightarrow> string \<Rightarrow> string \<Rightarrow> string \<Rightarrow> string option \<Rightarrow> gw_request" where
  "agent_request lm agent_type prompt urgency' context =
     (let system_prompt = get_agent_system_prompt agent_type urgency';
          messages =
            (case context of
               None \<Rightarrow> [(''system'', system_prompt), (''user'', prompt)]
             | Some c \<Rightarrow> [(''system'', system_prompt), (''system'', ''Context: '' @ c),
                          (''user'', prompt)])
      in \<lparr> req_model = current_active_model lm,
           req_messages = messages,
           req_temperature = get_temperature_for_agent agent_type,
           req_max_tokens = get_max_tokens_for_agent agent_type \<rparr>)"

text \<open>
  \<open>generate_response_for_agent\<close>. Everything that can raise (the call, reading the
  reply, scoring it) sits in the \<open>try\<close>; \<open>Inl\<close> of the gateway stands for any of these.
\<close>

definition generate_response_for_agent ::
  "gateway \<Rightarrow> string \<Rightarrow> string \<Rightarrow> string \<Rightarrow> string option \<Rightarrow> lm_state
     \<Rightarrow> (exn + llm_response) \<times> lm_state" where
  "generate_response_for_agent gw agent_type prompt urgency' context lm =
     (let optimal_model = get_optimal_model_for_agent agent_type urgency'
      in case chat_completions_create gw
                (agent_request lm agent_type prompt urgency' context) lm of
           (Inr content, lm') \<Rightarrow>
             (Inr \<lparr> r_content = content,
                    r_provider = Some ''lm_studio'',
                    r_active_model = Some (current_active_model lm'),
                    r_optimal_model = Some optimal_model,
                    r_agent_type = Some agent_type,
                    r_urgency = Some urgency',
                    r_confidence = calculate_confidence content agent_type,
                    r_error = None \<rparr>, lm')
         | (Inl e, lm') \<Rightarrow> (Inr (fallback_response prompt agent_type (str_exn e)), lm'))"

definition agent_type_map :: "ModelCapability \<Rightarrow> string" where
  "agent_type_map capability =
     (case capability of
        REASONING \<Rightarrow> ''orchestrator''
      | EMPATHY \<Rightarrow> ''customer_service''
      | SPATIAL \<Rightarrow> ''grabexpress''
      | GENERAL \<Rightarrow> ''orchestrator''
      | URGENT \<Rightarrow> ''grabexpress''
      | COORDINATION \<Rightarrow> ''orchestrator'')"

definition generate_response ::
  "gateway \<Rightarrow> string \<Rightarrow> ModelCapability \<Rightarrow> lm_state \<Rightarrow> (exn + llm_response) \<times> lm_state" where
  "generate_response gw prompt capability lm =
     (let agent_type = agent_type_map capability;
          urgency' = (if capability = URGENT then ''urgent'' else ''medium'')
      in generate_response_for_agent gw agent_type prompt urgency' None lm)"

section \<open>core/multi\_model\_orchestrator.py\<close>

record orchestrator_state =
  current_loaded_model :: "string option"
  model_switch_count :: nat

definition MultiModelOrchestrator_init :: orchestrator_state where
  "MultiModelOrchestrator_init = \<lparr> current_loaded_model = None, model_switch_count = 0 \<rparr>"

definition switch_model :: "string \<Rightarrow> orchestrator_state \<Rightarrow> orchestrator_state" where
  "switch_model new_model orch =
     (if Some new_model \<noteq> current_loaded_model orch
      then orch\<lparr> current_loaded_model := Some new_model,
                 model_switch_count := model_switch_count orch + 1 \<rparr>
      else orch)"

record task_result =
  tr_task :: string
  tr_model :: string
  tr_priority :: string
  tr_response :: string
  tr_confidence :: real
  tr_specialized :: bool

definition task_prompts :: "string \<Rightarrow> disruption_dict \<Rightarrow> (string \<times> string) list" where
  "task_prompts model_name problem_context =
     [(''route_optimization'',
         ''ROUTE OPTIMIZATION SPECIALIST Using '' @ model_name @ '' Problem: ''
           @ fmt (description problem_context)),
      (''customer_communication'',
         ''CUSTOMER COMMUNICATION SPECIALIST Using '' @ model_name @ '' Problem: ''
           @ fmt (description problem_context)),
      (''strategic_planning'',
         ''STRATEGIC PLANNING EXPERT Using '' @ model_name @ '' Problem: ''
           @ fmt (description problem_context)),
      (''sentiment_analysis'',
         ''SENTIMENT ANALYSIS SPECIALIST Using '' @ model_name @ '' Situation: ''
           @ fmt (description problem_context)),
      (''emergency_response'',
         ''EMERGENCY RESPONSE COORDINATOR Using '' @ model_name @ '' URGENT SITUATION: ''
           @ fmt (description problem_context))]"

definition execute_specialized_task ::
  "gateway \<Rightarrow> string \<Rightarrow> string \<Rightarrow> string \<Rightarrow> disruption_dict \<Rightarrow> lm_state
     \<Rightarrow> (exn + task_result) \<times> lm_state" where
  "execute_specialized_task gw task_name model_name priority problem_context lm =
     (let prompt = get_or (map_of (task_prompts model_name problem_context) task_name)
                     (''Analyze: '' @ fmt (description problem_context))
      in case generate_response_for_agent gw (''specialist_'' @ task_name) prompt
                (get_or (urgency problem_context) ''medium'') None lm of
           (Inl e, lm') \<Rightarrow> (Inl e, lm')
         | (Inr response, lm') \<Rightarrow>
             (Inr \<lparr> tr_task = task_name,
                    tr_model = model_name,
                    tr_priority = priority,
                    tr_response = r_content response,
                    tr_confidence = r_confidence response,
                    tr_specialized = True \<rparr>, lm'))"

text \<open>
  The \<open>for task_info in ...\<close> loop of \<open>execute_multi_model_analysis\<close>. The orchestrator's
  fields are returned also when a call raises: the object keeps what the loop did to it.
\<close>

fun execute_tasks ::
  "gateway \<Rightarrow> disruption_dict \<Rightarrow> task_info list \<Rightarrow> task_result list
     \<Rightarrow> orchestrator_state \<Rightarrow> lm_state
     \<Rightarrow> (exn + task_result list) \<times> orchestrator_state \<times> lm_state" where
  "execute_tasks gw problem_context [] results orch lm = (Inr results, orch, lm)"
| "execute_tasks gw problem_context (task_info # rest) results orch lm =
     (let task_name = TaskType_value (ti_task task_info);
          optimal_model = ti_model task_info;
          priority = ti_priority task_info;
          orch = (if Some optimal_model \<noteq> current_loaded_model orch
                  then switch_model optimal_model orch else orch)
      in case execute_specialized_task gw task_name optimal_model priority problem_context lm of
           (Inl e, lm') \<Rightarrow> (Inl e, orch, lm')
         | (Inr result, lm') \<Rightarrow>
             execute_tasks gw problem_context rest (results @ [result]) orch lm')"

record synthesis =
  unified_plan :: string
  synthesis_confidence :: real
  models_synthesized :: nat
  priority_levels :: nat
  comprehensive :: bool

definition section_lines :: "task_result list \<Rightarrow> string" where
  "section_lines rs =
     concat (map (\<lambda>r. ''* ['' @ tr_task r @ ''] ('' @ tr_model r @ ''): ''
                        @ take 200 (tr_response r) @ ''...'' @ [CHR 0x0A]) rs)"

definition master_synthesis_prompt :: "task_result list \<Rightarrow> disruption_dict \<Rightarrow> string" where
  "master_synthesis_prompt task_results problem_context =
     (let critical_results = filter (\<lambda>r. tr_priority r = ''critical'') task_results;
          high_results = filter (\<lambda>r. tr_priority r = ''high'') task_results;
          medium_results = filter (\<lambda>r. tr_priority r = ''medium'') task_results;
          synthesis_sections =
            (if critical_results \<noteq> []
             then [''CRITICAL ACTIONS:'' @ [CHR 0x0A] @ section_lines critical_results] else [])
            @ (if high_results \<noteq> []
               then [''HIGH PRIORITY SOLUTIONS:'' @ [CHR 0x0A] @ section_lines high_results]
               else [])
            @ (if medium_results \<noteq> []
               then [''SUPPORTING ANALYSIS:'' @ [CHR 0x0A] @ section_lines medium_results]
               else [])
      in ''MASTER SOLUTION SYNTHESIS Original Problem: ''
           @ fmt (description problem_context) @ [CHR 0x0A] @ concat synthesis_sections)"

text \<open>
  \<open>_synthesize_multi_model_results\<close>: \<open>synthesis_confidence\<close> is the confidence of the
  response to the master prompt.
\<close>

definition synthesize_multi_model_results ::
  "gateway \<Rightarrow> task_result list \<Rightarrow> disruption_dict \<Rightarrow> lm_state
     \<Rightarrow> (exn + synthesis) \<times> lm_state" where
  "synthesize_multi_model_results gw task_results problem_context lm =
     (case generate_response_for_agent gw ''master_synthesizer''
             (master_synthesis_prompt task_results problem_context) ''complex'' None lm of
        (Inl e, lm') \<Rightarrow> (Inl e, lm')
      | (Inr synthesis_response, lm') \<Rightarrow>
          (Inr \<lparr> unified_plan = r_content synthesis_response,
                 synthesis_confidence = r_confidence synthesis_response,
                 models_synthesized = card (set (map tr_model task_results)),
                 priority_levels = card (set (map tr_priority task_results)),
                 comprehensive = True \<rparr>, lm'))"

definition priority_weights :: "(string \<times> real) list" where
  "priority_weights = [(''critical'', 1.0), (''high'', 0.8), (''medium'', 0.6)]"

text \<open>The accumulation loop of \<open>_calculate_multi_model_confidence\<close>.\<close>

fun weigh :: "task_result list \<Rightarrow> real \<times> real \<Rightarrow> real \<times> real" where
  "weigh [] (weighted_sum, total_weight) = (weighted_sum, total_weight)"
| "weigh (result # rest) (weighted_sum, total_weight) =
     (let weight = get_or (map_of priority_weights (tr_priority result)) 0.5
      in weigh rest (weighted_sum + tr_confidence result * weight, total_weight + weight))"

definition calculate_multi_model_confidence :: "task_result list \<Rightarrow> real" where
  "calculate_multi_model_confidence task_results =
     (if task_results = [] then 0.0
      else
        (case weigh task_results (0, 0) of
           (weighted_sum, total_weight) \<Rightarrow>
             (let base_confidence =
                    (if total_weight > 0 then weighted_sum / total_weight else 0.0);
                  unique_models = card (set (map tr_model task_results));
                  diversity_bonus = min 0.15 (real unique_models * 0.03)
              in min 0.95 (base_confidence + diversity_bonus))))"

record analysis_result =
  problem_analysis :: task_analysis
  task_results :: "task_result list"
  ar_final_solution :: synthesis
  models_used :: "string set"
  model_switches :: nat
  overall_confidence :: real

definition execute_multi_model_analysis ::
  "gateway \<Rightarrow> disruption_dict \<Rightarrow> orchestrator_state \<Rightarrow> lm_state
     \<Rightarrow> (exn + analysis_result) \<times> orchestrator_state \<times> lm_state" where
  "execute_multi_model_analysis gw problem_context orch lm =
     (let task_analysis = analyze_problem_requirements problem_context
      in case execute_tasks gw problem_context (recommended_tasks task_analysis) [] orch lm of
           (Inl e, orch', lm') \<Rightarrow> (Inl e, orch', lm')
         | (Inr results, orch', lm') \<Rightarrow>
             (case synthesize_multi_model_results gw results problem_context lm' of
                (Inl e, lm'') \<Rightarrow> (Inl e, orch', lm'')
              | (Inr final, lm'') \<Rightarrow>
                  (Inr \<lparr> problem_analysis = task_analysis,
                         task_results = results,
                         ar_final_solution = final,
                         models_used = models_needed task_analysis,
                         model_switches = model_switch_count orch',
                         overall_confidence = calculate_multi_model_confidence results \<rparr>,
                   orch', lm'')))"

section \<open>agents/service\_agents.py: processing a task\<close>

text \<open>
  The content dict of an \<open>AgentMessage\<close>. Of the derived fields the agents attach, the
  action items and the security checklist are kept; the route summary, the follow-up flag
  and the compensation suggestion are constants or read keys outside \<open>task\<close>, and no step
  of the workflow reads them. Timestamps are left out. The agent object's own
  \<open>state.confidence\<close> is written and read back within one call, so \<open>should_escalate()\<close>
  is the comparison on the response's confidence.
\<close>

record content_dict =
  c_solution :: "string option"
  c_customer_message :: "string option"
  c_confidence :: "real option"
  c_model_used :: "string option"
  c_optimal_model :: "string option"
  c_urgency :: "string option"
  c_sentiment_analysis :: "string option"
  c_requires_escalation :: "bool option"
  c_escalation_needed :: "bool option"
  c_next_actions :: "string list option"
  c_security_measures :: "string list option"

record agent_message =
  am_agent_id :: string
  am_message_type :: string
  am_content :: content_dict
  am_confidence :: real

definition empty_content :: content_dict where
  "empty_content =
     \<lparr> c_solution = None, c_customer_message = None, c_confidence = None,
       c_model_used = None, c_optimal_model = None, c_urgency = None,
       c_sentiment_analysis = None, c_requires_escalation = None,
       c_escalation_needed = None, c_next_actions = None, c_security_measures = None \<rparr>"

definition extract_action_items :: "string \<Rightarrow> string list" where
  "extract_action_items content =
     (if py_in ''contact restaurant'' (lower content) then [''restaurant_contact''] else [])
     @ (if py_in ''alternative route'' (lower content) then [''route_optimization''] else [])
     @ (if py_in ''customer notification'' (lower content)
        then [''customer_communication''] else [])
     @ (if py_in ''refund'' (lower content) \<or> py_in ''compensation'' (lower content)
        then [''customer_compensation''] else [])"

definition assess_security_needs :: "task \<Rightarrow> string list" where
  "assess_security_needs task =
     (let package_value' = get_or (t_package_value task) 0
      in (if package_value' > 10000 then [''signature_required''] else [])
         @ (if t_package_type task = Some ''documents'' then [''document_verification''] else [])
         @ (if get_or (t_fragile task) False then [''fragile_handling''] else [])
         @ (if package_value' > 50000 then [''insurance_verification''] else []))"

definition GrabFoodAgent_process_task ::
  "gateway \<Rightarrow> task \<Rightarrow> lm_state \<Rightarrow> (exn + agent_message) \<times> lm_state" where
  "GrabFoodAgent_process_task gw task lm =
     (let urgency' = GrabFoodAgent_determine_urgency task;
          prompt = ''FOOD DELIVERY DISRUPTION ANALYSIS: Disruption: '' @ fmt (t_disruption task)
                     @ '' Urgency Level: '' @ urgency'
      in case generate_response_for_agent gw ''grabfood'' prompt urgency' None lm of
           (Inl e, lm') \<Rightarrow> (Inl e, lm')
         | (Inr response, lm') \<Rightarrow>
             (Inr \<lparr> am_agent_id = ''grabfood_specialist'',
                    am_message_type = ''task_completion'',
                    am_content = empty_content
                      \<lparr> c_solution := Some (r_content response),
                        c_confidence := Some (r_confidence response),
                        c_model_used := Some (get_or (r_active_model response) ''unknown''),
                        c_optimal_model := Some (get_or (r_optimal_model response) ''unknown''),
                        c_urgency := Some urgency',
                        c_requires_escalation := Some (r_confidence response < 0.6),
                        c_next_actions := Some (extract_action_items (r_content response)) \<rparr>,
                    am_confidence = r_confidence response \<rparr>, lm'))"

definition GrabExpressAgent_process_task ::
  "gateway \<Rightarrow> task \<Rightarrow> lm_state \<Rightarrow> (exn + agent_message) \<times> lm_state" where
  "GrabExpressAgent_process_task gw task lm =
     (let urgency' = GrabExpressAgent_determine_urgency task;
          prompt = ''PACKAGE DELIVERY DISRUPTION ANALYSIS: Disruption: ''
                     @ fmt (t_disruption task) @ '' Urgency: '' @ get_or (t_urgency task) ''normal''
      in case generate_response_for_agent gw ''grabexpress'' prompt urgency' None lm of
           (Inl e, lm') \<Rightarrow> (Inl e, lm')
         | (Inr response, lm') \<Rightarrow>
             (Inr \<lparr> am_agent_id = ''grabexpress_specialist'',
                    am_message_type = ''task_completion'',
                    am_content = empty_content
                      \<lparr> c_solution := Some (r_content response),
                        c_confidence := Some (r_confidence response),
                        c_model_used := Some (get_or (r_active_model response) ''unknown''),
                        c_optimal_model := Some (get_or (r_optimal_model response) ''unknown''),
                        c_urgency := Some urgency',
                        c_requires_escalation := Some (r_confidence response < 0.6),
                        c_security_measures := Some (assess_security_needs task) \<rparr>,
                    am_confidence = r_confidence response \<rparr>, lm'))"

definition analyze_sentiment :: "task \<Rightarrow> string" where
  "analyze_sentiment task =
     (let disruption_text =
            lower (get_or (t_customer_issue task) (get_or (t_disruption task) ''''))
      in if any_in [''angry'', ''furious'', ''outraged'', ''unacceptable''] disruption_text
         then ''angry''
         else if any_in [''frustrated'', ''annoyed'', ''disappointed'', ''upset''] disruption_text
         then ''frustrated''
         else if any_in [''confused'', ''unclear'', ''don't understand''] disruption_text
         then ''confused''
         else if any_in [''happy'', ''satisfied'', ''good'', ''excellent''] disruption_text
         then ''positive''
         else get_or (t_sentiment task) ''neutral'')"

definition CustomerServiceAgent_process_task ::
  "gateway \<Rightarrow> task \<Rightarrow> lm_state \<Rightarrow> (exn + agent_message) \<times> lm_state" where
  "CustomerServiceAgent_process_task gw task lm =
     (let sentiment = analyze_sentiment task;
          urgency' = (if sentiment \<in> set [''angry'', ''frustrated''] then ''urgent'' else ''medium'');
          prompt = ''CUSTOMER SERVICE SITUATION: Customer Issue: ''
                     @ get_or (t_customer_issue task) (get_or (t_disruption task) ''General inquiry'')
                     @ '' Customer Sentiment: '' @ sentiment
      in case generate_response_for_agent gw ''customer_service'' prompt urgency' None lm of
           (Inl e, lm') \<Rightarrow> (Inl e, lm')
         | (Inr response, lm') \<Rightarrow>
             (Inr \<lparr> am_agent_id = ''customer_service_specialist'',
                    am_message_type = ''customer_communication'',
                    am_content = empty_content
                      \<lparr> c_customer_message := Some (r_content response),
                        c_sentiment_analysis := Some sentiment,
                        c_confidence := Some (r_confidence response),
                        c_model_used := Some (get_or (r_active_model response) ''unknown''),
                        c_optimal_model := Some (get_or (r_optimal_model response) ''unknown''),
                        c_escalation_needed := Some (r_confidence response < 0.7) \<rparr>,
                    am_confidence = r_confidence response \<rparr>, lm'))"

section \<open>orchestrator/langgraph\_orchestrator.py\<close>

record agent_response_entry =
  ar_agent :: string
  ar_response :: agent_message

record escalation_context =
  ec_disruption :: disruption_dict
  ec_attempted_solutions :: "agent_response_entry list"
  ec_confidence_scores :: "real list"
  ec_escalation_reason :: string
  ec_recommended_actions :: string

record final_solution_dict =
  fs_solution :: "string option"
  fs_validation :: "llm_response option"
  fs_confidence :: "real option"
  fs_customer_communication :: "agent_message option"
  fs_escalation_context :: "escalation_context option"

text \<open>
  An entry of the conversation log. Its \<open>input\<close> is the live disruption dict itself, not a
  copy, and is not repeated here.
\<close>

record history_entry =
  h_step :: string
  h_output :: llm_response

record logistics_state =
  disruption :: disruption_dict
  current_agent :: string
  agent_responses :: "agent_response_entry list"
  final_solution :: final_solution_dict
  escalation_needed :: bool
  confidence_score :: real
  conversation_history :: "history_entry list"

text \<open>The small dicts the orchestrator substitutes when a call raises.\<close>

definition small_response :: "string \<Rightarrow> real \<Rightarrow> string option \<Rightarrow> llm_response" where
  "small_response text conf err =
     \<lparr> r_content = text, r_provider = None, r_active_model = None, r_optimal_model = None,
       r_agent_type = None, r_urgency = None, r_confidence = conf, r_error = err \<rparr>"

definition analyze_disruption ::
  "gateway \<Rightarrow> logistics_state \<Rightarrow> lm_state \<Rightarrow> (exn + logistics_state) \<times> lm_state" where
  "analyze_disruption gw state lm =
     (let disruption' = disruption state;
          analysis_prompt = ''Analyze this logistics disruption and classify it: Disruption Report: ''
                              @ fmt (description disruption')
      in case generate_response gw analysis_prompt REASONING lm of
           (res, lm') \<Rightarrow>
             (let analysis' =
                    (case res of
                       Inr a \<Rightarrow> a
                     | Inl e \<Rightarrow>
                         small_response
                           (''Basic analysis: '' @ get_or (service_type disruption') ''general''
                              @ '' disruption requiring ''
                              @ get_or (urgency disruption') ''medium'' @ '' priority'')
                           0.5 (Some (str_exn e)))
              in (Inr (state
                    \<lparr> conversation_history := conversation_history state
                         @ [\<lparr> h_step = ''disruption_analysis'', h_output = analysis' \<rparr>],
                      disruption := disruption' \<lparr> analysis := Some analysis' \<rparr> \<rparr>),
                  lm')))"

definition route_to_specialist ::
  "gateway \<Rightarrow> logistics_state \<Rightarrow> lm_state \<Rightarrow> (exn + logistics_state) \<times> lm_state" where
  "route_to_specialist gw state lm =
     (case analysis (disruption state) of
        None \<Rightarrow> (Inl (KeyError ''analysis''), lm)
      | Some a \<Rightarrow>
          (let analysis' = r_content a;
               service_type' = get_or (service_type (disruption state)) '''';
               specialist =
                 (if py_in ''food'' (lower analysis') \<or> py_in ''restaurant'' (lower analysis')
                     \<or> service_type' = ''grabfood''
                  then ''grabfood''
                  else if py_in ''package'' (lower analysis') \<or> py_in ''express'' (lower analysis')
                     \<or> service_type' = ''grabexpress''
                  then ''grabexpress''
                  else ''customer_service'');
               routing_prompt = ''Based on disruption analysis: '' @ analysis'
                                  @ '' Routing to '' @ specialist @ '' agent.''
           in case generate_response gw routing_prompt REASONING lm of
                (res, lm') \<Rightarrow>
                  (let briefing =
                         (case res of
                            Inr b \<Rightarrow> b
                          | Inl e \<Rightarrow>
                              small_response (''Standard briefing for '' @ specialist @ '' agent'')
                                0.5 (Some (str_exn e)))
                   in (Inr (state
                         \<lparr> current_agent := specialist,
                           disruption := (disruption state)
                             \<lparr> specialist_briefing := Some briefing \<rparr> \<rparr>),
                       lm'))))"

text \<open>\<open>self.agents\<close>: the three specialists by key.\<close>

definition agents ::
  "(string \<times> (gateway \<Rightarrow> task \<Rightarrow> lm_state \<Rightarrow> (exn + agent_message) \<times> lm_state)) list" where
  "agents =
     [(''grabfood'', GrabFoodAgent_process_task),
      (''grabexpress'', GrabExpressAgent_process_task),
      (''customer_service'', CustomerServiceAgent_process_task)]"

definition execute_specialist_task ::
  "gateway \<Rightarrow> logistics_state \<Rightarrow> lm_state \<Rightarrow> (exn + logistics_state) \<times> lm_state" where
  "execute_specialist_task gw state lm =
     (let current_agent' = current_agent state;
          d = disruption state
      in case map_of agents current_agent' of
           None \<Rightarrow> (Inl (KeyError current_agent'), lm)
         | Some process_task \<Rightarrow>
             (case description d of
                None \<Rightarrow> (Inl (KeyError ''description''), lm)
              | Some description' \<Rightarrow>
                  (case service_type d of
                     None \<Rightarrow> (Inl (KeyError ''service_type''), lm)
                   | Some service_type' \<Rightarrow>
                       (let task =
                              \<lparr> t_disruption = Some description',
                                t_customer_issue = None,
                                t_service_type = Some service_type',
                                t_urgency = urgency d,
                                t_severity = severity d,
                                t_affected_orders = affected_orders d,
                                t_package_value = package_value d,
                                t_package_type = package_type d,
                                t_fragile = fragile d,
                                t_sentiment = None \<rparr>
                        in case process_task gw task lm of
                             (res, lm') \<Rightarrow>
                               (let response_dict =
                                      (case res of
                                         Inr response \<Rightarrow> response
                                       | Inl e \<Rightarrow>
                                           \<lparr> am_agent_id = current_agent',
                                             am_message_type = ''error'',
                                             am_content = empty_content
                                               \<lparr> c_solution :=
                                                   Some (''Agent '' @ current_agent'
                                                     @ '' encountered an error: '' @ str_exn e),
                                                 c_confidence := Some 0.3 \<rparr>,
                                             am_confidence = 0.3 \<rparr>)
                                in (Inr (state
                                      \<lparr> agent_responses := agent_responses state
                                           @ [\<lparr> ar_agent = current_agent',
                                                ar_response = response_dict \<rparr>],
                                        confidence_score := am_confidence response_dict \<rparr>),
                                    lm'))))))"

text \<open>\<open>str(response_content)\<close> of a content dict without a \<open>solution\<close> key, in outline.\<close>

definition str_content :: "content_dict \<Rightarrow> string" where
  "str_content c = ''{customer_message: '' @ fmt (c_customer_message c) @ ''}''"

definition validate_solution ::
  "gateway \<Rightarrow> logistics_state \<Rightarrow> lm_state \<Rightarrow> (exn + logistics_state) \<times> lm_state" where
  "validate_solution gw state lm =
     (if agent_responses state = []
      then (Inr (state
              \<lparr> final_solution :=
                  \<lparr> fs_solution = Some ''No solution generated'',
                    fs_validation = Some (small_response ''No validation possible'' 0.1 None),
                    fs_confidence = Some 0.1,
                    fs_customer_communication = None,
                    fs_escalation_context = None \<rparr> \<rparr>), lm)
      else
        (let latest_response = last (agent_responses state);
             response_content = am_content (ar_response latest_response);
             solution = (case c_solution response_content of
                           Some s \<Rightarrow> s
                         | None \<Rightarrow> str_content response_content)
         in case description (disruption state) of
              None \<Rightarrow> (Inl (KeyError ''description''), lm)
            | Some description' \<Rightarrow>
                (let validation_prompt = ''Validate this logistics solution: Original Problem: ''
                                           @ description' @ '' Proposed Solution: '' @ solution
                 in case generate_response gw validation_prompt REASONING lm of
                      (res, lm') \<Rightarrow>
                        (let validation =
                               (case res of
                                  Inr v \<Rightarrow> v
                                | Inl e \<Rightarrow>
                                    small_response (''Validation unavailable: '' @ str_exn e)
                                      0.5 None)
                         in (Inr (state
                               \<lparr> final_solution :=
                                   \<lparr> fs_solution = Some solution,
                                     fs_validation = Some validation,
                                     fs_confidence =
                                       Some (am_confidence (ar_response latest_response)),
                                     fs_customer_communication = None,
                                     fs_escalation_context = None \<rparr> \<rparr>), lm')))))"

definition handle_customer_communication ::
  "gateway \<Rightarrow> logistics_state \<Rightarrow> lm_state \<Rightarrow> (exn + logistics_state) \<times> lm_state" where
  "handle_customer_communication gw state lm =
     (case description (disruption state) of
        None \<Rightarrow> (Inl (KeyError ''description''), lm)
      | Some description' \<Rightarrow>
          (case fs_solution (final_solution state) of
             None \<Rightarrow> (Inl (KeyError ''solution''), lm)
           | Some solution \<Rightarrow>
               (case service_type (disruption state) of
                  None \<Rightarrow> (Inl (KeyError ''service_type''), lm)
                | Some service_type' \<Rightarrow>
                    (let communication_task =
                           \<lparr> t_disruption = None,
                             t_customer_issue = Some description',
                             t_service_type = Some service_type',
                             t_urgency = None,
                             t_severity = None,
                             t_affected_orders = None,
                             t_package_value = None,
                             t_package_type = None,
                             t_fragile = None,
                             t_sentiment = Some (get_or (customer_sentiment (disruption state))
                                                   ''neutral'') \<rparr>
                     in case CustomerServiceAgent_process_task gw communication_task lm of
                          (res, lm') \<Rightarrow>
                            (let communication_dict =
                                   (case res of
                                      Inr communication \<Rightarrow> communication
                                    | Inl e \<Rightarrow>
                                        \<lparr> am_agent_id = ''customer_service'',
                                          am_message_type = ''error'',
                                          am_content = empty_content
                                            \<lparr> c_customer_message :=
                                                Some (''Communication error: '' @ str_exn e) \<rparr>,
                                          am_confidence = 0.3 \<rparr>)
                             in (Inr (state
                                   \<lparr> final_solution := (final_solution state)
                                       \<lparr> fs_customer_communication := Some communication_dict \<rparr> \<rparr>),
                                 lm'))))))"

definition escalate_to_human ::
  "logistics_state \<Rightarrow> lm_state \<Rightarrow> (exn + logistics_state) \<times> lm_state" where
  "escalate_to_human state lm =
     (let escalation_context' =
            \<lparr> ec_disruption = disruption state,
              ec_attempted_solutions = agent_responses state,
              ec_confidence_scores =
                map (\<lambda>resp. am_confidence (ar_response resp)) (agent_responses state),
              ec_escalation_reason = ''Low confidence score or complex scenario'',
              ec_recommended_actions =
                get_or (fs_solution (final_solution state)) ''None generated'' \<rparr>
      in (Inr (state
            \<lparr> escalation_needed := True,
              final_solution := (final_solution state)
                \<lparr> fs_escalation_context := Some escalation_context' \<rparr> \<rparr>), lm))"

text \<open>\<open>finalize_solution\<close> builds a log record and prints; the state is returned as it is.\<close>

definition finalize_solution ::
  "logistics_state \<Rightarrow> lm_state \<Rightarrow> (exn + logistics_state) \<times> lm_state" where
  "finalize_solution state lm = (Inr state, lm)"

definition should_escalate :: "config \<Rightarrow> logistics_state \<Rightarrow> string" where
  "should_escalate cfg state =
     (let confidence = confidence_score state
      in if confidence < get_or (HUMAN_ESCALATION_THRESHOLD cfg) 0.6 then ''escalate''
         else if confidence < get_or (CONFIDENCE_THRESHOLD cfg) 0.8 then ''retry''
         else ''communicate'')"

text \<open>
  The compiled graph of \<open>_build_workflow_graph\<close>: its nodes, the conditional edge out of
  \<open>validate_solution\<close>, and the node that follows each node.
\<close>

datatype node =
    N_disruption_analysis
  | N_route_to_specialist
  | N_execute_specialist_task
  | N_validate_solution
  | N_customer_communication
  | N_escalate_to_human
  | N_finalize_solution
  | END

definition conditional_edges :: "(string \<times> node) list" where
  "conditional_edges =
     [(''escalate'', N_escalate_to_human),
      (''communicate'', N_customer_communication),
      (''retry'', N_execute_specialist_task)]"

fun successor :: "config \<Rightarrow> node \<Rightarrow> logistics_state \<Rightarrow> node" where
  "successor cfg N_disruption_analysis state = N_route_to_specialist"
| "successor cfg N_route_to_specialist state = N_execute_specialist_task"
| "successor cfg N_execute_specialist_task state = N_validate_solution"
| "successor cfg N_validate_solution state =
     get_or (map_of conditional_edges (should_escalate cfg state)) END"
| "successor cfg N_customer_communication state = N_finalize_solution"
| "successor cfg N_escalate_to_human state = END"
| "successor cfg N_finalize_solution state = END"
| "successor cfg END state = END"

fun run_node ::
  "gateway \<Rightarrow> node \<Rightarrow> logistics_state \<Rightarrow> lm_state \<Rightarrow> (exn + logistics_state) \<times> lm_state" where
  "run_node gw N_disruption_analysis state lm = analyze_disruption gw state lm"
| "run_node gw N_route_to_specialist state lm = route_to_specialist gw state lm"
| "run_node gw N_execute_specialist_task state lm = execute_specialist_task gw state lm"
| "run_node gw N_validate_solution state lm = validate_solution gw state lm"
| "run_node gw N_customer_communication state lm = handle_customer_communication gw state lm"
| "run_node gw N_escalate_to_human state lm = escalate_to_human state lm"
| "run_node gw N_finalize_solution state lm = finalize_solution state lm"
| "run_node gw END state lm = (Inr state, lm)"

text \<open>
  \<open>graph.ainvoke(state, {"recursion_limit": n})\<close>. LangGraph is a library outside the
  repository; it is taken by its contract: the nodes run one per step from the entry point
  along the edges, a raise in a node leaves the run, and a run that has taken \<open>n\<close> steps
  without reaching \<open>END\<close> raises \<open>GraphRecursionError\<close>. The third component lists the nodes
  run, in order.
\<close>

fun graph_run ::
  "nat \<Rightarrow> gateway \<Rightarrow> config \<Rightarrow> node \<Rightarrow> logistics_state \<Rightarrow> lm_state \<Rightarrow> node list
     \<Rightarrow> (exn + logistics_state) \<times> lm_state \<times> node list" where
  "graph_run 0 gw cfg nd state lm trace = (Inl GraphRecursionError, lm, trace)"
| "graph_run (Suc n) gw cfg nd state lm trace =
     (case run_node gw nd state lm of
        (Inl e, lm') \<Rightarrow> (Inl e, lm', trace @ [nd])
      | (Inr state', lm') \<Rightarrow>
          (if successor cfg nd state' = END then (Inr state', lm', trace @ [nd])
           else graph_run n gw cfg (successor cfg nd state') state' lm' (trace @ [nd])))"

definition graph_ainvoke ::
  "gateway \<Rightarrow> config \<Rightarrow> logistics_state \<Rightarrow> nat \<Rightarrow> lm_state
     \<Rightarrow> (exn + logistics_state) \<times> lm_state \<times> node list" where
  "graph_ainvoke gw cfg initial_state recursion_limit lm =
     graph_run recursion_limit gw cfg N_disruption_analysis initial_state lm []"

text \<open>
  What \<open>process_disruption\<close> returns: the final state, or the error dict of its
  \<open>except\<close> branch, which carries five keys only.
\<close>

record error_state =
  es_disruption :: disruption_dict
  es_final_solution :: final_solution_dict
  es_escalation_needed :: bool
  es_confidence_score :: real
  es_error :: string

datatype workflow_result = FinalState logistics_state | ErrorState error_state

definition LogisticsState_init :: "disruption_dict \<Rightarrow> logistics_state" where
  "LogisticsState_init d =
     \<lparr> disruption = d,
       current_agent = '''',
       agent_responses = [],
       final_solution =
         \<lparr> fs_solution = None, fs_validation = None, fs_confidence = None,
           fs_customer_communication = None, fs_escalation_context = None \<rparr>,
       escalation_needed = False,
       confidence_score = 0.0,
       conversation_history = [] \<rparr>"

definition process_disruption ::
  "gateway \<Rightarrow> config \<Rightarrow> disruption_dict \<Rightarrow> lm_state
     \<Rightarrow> (exn + workflow_result) \<times> lm_state" where
  "process_disruption gw cfg d lm =
     (let initial_state = LogisticsState_init d
      in case graph_ainvoke gw cfg initial_state 50 lm of
           (Inr final_state, lm', trace) \<Rightarrow> (Inr (FinalState final_state), lm')
         | (Inl e, lm', trace) \<Rightarrow>
             (Inr (ErrorState
                \<lparr> es_disruption = d,
                  es_final_solution =
                    \<lparr> fs_solution = Some (''System error: '' @ str_exn e),
                      fs_validation = None,
                      fs_confidence = Some 0.1,
                      fs_customer_communication = None,
                      fs_escalation_context = None \<rparr>,
                  es_escalation_needed = True,
                  es_confidence_score = 0.1,
                  es_error = str_exn e \<rparr>), lm'))"

text \<open>The keys every caller may read off the result.\<close>

fun result_confidence_score :: "workflow_result \<Rightarrow> real" where
  "result_confidence_score (FinalState s) = confidence_score s"
| "result_confidence_score (ErrorState e) = es_confidence_score e"

fun result_final_solution :: "workflow_result \<Rightarrow> final_solution_dict" where
  "result_final_solution (FinalState s) = final_solution s"
| "result_final_solution (ErrorState e) = es_final_solution e"

fun result_escalation_needed :: "workflow_result \<Rightarrow> bool" where
  "result_escalation_needed (FinalState s) = escalation_needed s"
| "result_escalation_needed (ErrorState e) = es_escalation_needed e"

section \<open>Counting backend changes, and two gateways to run the code on\<close>

text \<open>
  \<open>adjacent_changes\<close> is the specification's count: the adjacent pairs of a list of backend
  names whose members differ. \<open>loads\<close> counts, along the list, the tasks whose backend is not
  the one loaded when they are reached. \<open>gw_ok\<close> answers every request with a two-letter
  text; \<open>gw_down\<close> fails every request.
\<close>

definition adjacent_changes :: "string list \<Rightarrow> nat" where
  "adjacent_changes ms = length (filter (\<lambda>(a, b). a \<noteq> b) (zip ms (tl ms)))"

fun loads :: "string option \<Rightarrow> string list \<Rightarrow> nat" where
  "loads cur [] = 0"
| "loads cur (m # ms) = (if Some m \<noteq> cur then 1 else 0) + loads (Some m) ms"

definition gw_ok :: gateway where
  "gw_ok n request = Inr ''ok''"

definition gw_down :: gateway where
  "gw_down n request = Inl ''Connection error.''"

text \<open>
  A task list on the backends A, A, B, A; the tier weights of the specification, with the
  code's weight for any other tier; and three results of tiers critical, high and medium
  on two distinct backends.
\<close>

definition tasks_AABA :: "task_info list" where
  "tasks_AABA =
     [\<lparr> ti_task = EMERGENCY_RESPONSE, ti_model = ''A'', ti_priority = ''critical'' \<rparr>,
      \<lparr> ti_task = ROUTE_OPTIMIZATION, ti_model = ''A'', ti_priority = ''high'' \<rparr>,
      \<lparr> ti_task = SENTIMENT_ANALYSIS, ti_model = ''B'', ti_priority = ''medium'' \<rparr>,
      \<lparr> ti_task = STRATEGIC_PLANNING, ti_model = ''A'', ti_priority = ''high'' \<rparr>]"

definition tier_weight :: "string \<Rightarrow> real" where
  "tier_weight tier =
     (if tier = ''critical'' then 1.0
      else if tier = ''high'' then 0.8
      else if tier = ''medium'' then 0.6
      else 0.5)"

definition three_results :: "task_result list" where
  "three_results =
     [\<lparr> tr_task = ''emergency_response'', tr_model = ''qwen/qwen3-1.7b'',
        tr_priority = ''critical'', tr_response = ''Reroute now.'', tr_confidence = 0.9,
        tr_specialized = True \<rparr>,
      \<lparr> tr_task = ''route_optimization'', tr_model = ''qwen/qwen3-4b-thinking-2507'',
        tr_priority = ''high'', tr_response = ''Use the ring road.'', tr_confidence = 0.8,
        tr_specialized = True \<rparr>,
      \<lparr> tr_task = ''sentiment_analysis'', tr_model = ''qwen/qwen3-1.7b'',
        tr_priority = ''medium'', tr_response = ''Customers are upset.'', tr_confidence = 0.7,
        tr_specialized = True \<rparr>]"

text \<open>
  Two tasks to run the classifiers on, and a workflow state of a given confidence score.
\<close>

definition task_hot :: task where
  "task_hot =
     \<lparr> t_disruption = Some ''Orders are running late'',
       t_customer_issue = None,
       t_service_type = Some ''grabfood'',
       t_urgency = Some ''high'',
       t_severity = None,
       t_affected_orders = Some 25,
       t_package_value = Some 75000,
       t_package_type = None,
       t_fragile = None,
       t_sentiment = None \<rparr>"

definition task_calm :: task where
  "task_calm =
     \<lparr> t_disruption = Some ''Multiple parcels sent to the wrong address'',
       t_customer_issue = None,
       t_service_type = Some ''grabexpress'',
       t_urgency = None,
       t_severity = None,
       t_affected_orders = Some 6,
       t_package_value = None,
       t_package_type = None,
       t_fragile = None,
       t_sentiment = None \<rparr>"

section \<open>The router's rules as the specification words them\<close>

text \<open>
  The priority tier the specification gives each task kind, the order in which its rules
  are listed, and the three kinds emitted by the keyword rules. \<open>opt_task\<close> is the task
  a rule appends when it fires. \<open>sample_disruption\<close> is the first sample of \<open>main.py\<close>.
\<close>
definition router_tier :: "TaskType \<Rightarrow> string" where
  "router_tier k =
     (case k of
        ROUTE_OPTIMIZATION \<Rightarrow> ''high''
      | CUSTOMER_COMMUNICATION \<Rightarrow> ''high''
      | SENTIMENT_ANALYSIS \<Rightarrow> ''medium''
      | STRATEGIC_PLANNING \<Rightarrow> ''high''
      | EMERGENCY_RESPONSE \<Rightarrow> ''critical'')"

definition router_order :: "TaskType list" where
  "router_order = [ROUTE_OPTIMIZATION, CUSTOMER_COMMUNICATION, SENTIMENT_ANALYSIS,
                   STRATEGIC_PLANNING, EMERGENCY_RESPONSE]"

definition signal_kinds :: "TaskType list" where
  "signal_kinds = [ROUTE_OPTIMIZATION, CUSTOMER_COMMUNICATION, SENTIMENT_ANALYSIS]"

definition opt_task :: "bool \<Rightarrow> TaskType \<Rightarrow> string \<Rightarrow> task_info list" where
  "opt_task b k p = (if b then [\<lparr> ti_task = k, ti_model = get_model_for_task k, ti_priority = p \<rparr>] else [])"

definition sample_disruption :: disruption_dict where
  "sample_disruption =
     \<lparr> d_id = Some ''MM_DISR_001'',
       description = Some ''Heavy traffic jam on Highway 101 affecting 25 food deliveries, multiple angry customers calling, restaurant coordination needed urgently'',
       service_type = Some ''grabfood'',
       location = Some ''Highway 101, San Francisco'',
       urgency = Some ''high'',
       severity = Some ''high'',
       affected_orders = Some 25,
       package_value = None,
       package_type = None,
       fragile = None,
       customer_sentiment = None,
       analysis = None,
       specialist_briefing = None \<rparr>"

text \<open>A confidence within the range every gateway response stays in.\<close>

definition in_range :: "task_result \<Rightarrow> bool" where
  "in_range r = (0.1 \<le> tr_confidence r \<and> tr_confidence r \<le> 0.95)"

definition state_with_confidence :: "real \<Rightarrow> logistics_state" where
  "state_with_confidence c = (LogisticsState_init sample_disruption) \<lparr> confidence_score := c \<rparr>"

section \<open>Proofs\<close>

subsection \<open>Strings\<close>

lemma py_in_sublist: "py_in w s = sublist w s"
  by (induction s) (auto simp: sublist_Cons_right)

subsection \<open>Confidence of a generated text\<close>

text \<open>
  C5. For every generated text and every agent type, the specialist confidence starts at
  0.8, gains 0.05 when the text is longer than 100 characters, loses 0.1 when it is shorter
  than 50, gains 0.1 when one of the agent's quality keywords occurs in the lower-cased
  text, loses 0.15 when a hedging keyword occurs, and is clamped to [0.1, 0.95]; so every
  value returned lies in [0.1, 0.95].
\<close>

theorem calculate_confidence_formula:
  "calculate_confidence content agent_type =
     max 0.1 (min 0.95
       (0.8
        + (if length content > 100 then 0.05 else 0)
        - (if length content < 50 then 0.1 else 0)
        + (if any_in (get_or (map_of quality_indicators agent_type) []) (lower content)
           then 0.1 else 0)
        - (if any_in uncertainty_words (lower content) then 0.15 else 0)))
   \<and> 0.1 \<le> calculate_confidence content agent_type
   \<and> calculate_confidence content agent_type \<le> 0.95"
  by (simp add: calculate_confidence_def Let_def)

subsection \<open>Router\<close>

lemma recommended_shape:
  "recommended_tasks (analyze_problem_requirements pc) =
     (let d = lower (get_or (description pc) '''');
          u = get_or (urgency pc) ''medium'';
          a = any_in [''traffic'', ''route'', ''location'', ''delivery''] d;
          b = any_in [''customer'', ''notification'', ''communication''] d;
          c = any_in [''angry'', ''frustrated'', ''complaint''] d
      in opt_task a ROUTE_OPTIMIZATION ''high''
       @ opt_task b CUSTOMER_COMMUNICATION ''high''
       @ opt_task c SENTIMENT_ANALYSIS ''medium''
       @ opt_task (sum_bools [a, b, c] > 1 \<or> u = ''high'' \<or> u = ''complex'') STRATEGIC_PLANNING ''high''
       @ opt_task (u = ''high'' \<or> py_in ''emergency'' d) EMERGENCY_RESPONSE ''critical'')"
  unfolding analyze_problem_requirements_def Let_def opt_task_def sum_bools_def
  by simp

lemma shape_kinds:
  "map ti_task (opt_task a ROUTE_OPTIMIZATION p1 @ opt_task b CUSTOMER_COMMUNICATION p2
       @ opt_task c SENTIMENT_ANALYSIS p3 @ opt_task s STRATEGIC_PLANNING p4
       @ opt_task e EMERGENCY_RESPONSE p5)
   = (if a then [ROUTE_OPTIMIZATION] else []) @ (if b then [CUSTOMER_COMMUNICATION] else [])
     @ (if c then [SENTIMENT_ANALYSIS] else []) @ (if s then [STRATEGIC_PLANNING] else [])
     @ (if e then [EMERGENCY_RESPONSE] else [])"
  by (simp add: opt_task_def)

lemma shape_priorities:
  "map ti_priority (opt_task a ROUTE_OPTIMIZATION p1 @ opt_task b CUSTOMER_COMMUNICATION p2
       @ opt_task c SENTIMENT_ANALYSIS p3 @ opt_task s STRATEGIC_PLANNING p4
       @ opt_task e EMERGENCY_RESPONSE p5)
   = (if a then [p1] else []) @ (if b then [p2] else [])
     @ (if c then [p3] else []) @ (if s then [p4] else [])
     @ (if e then [p5] else [])"
  by (simp add: opt_task_def)

lemma kinds_props:
  fixes a b c s e :: bool
  defines "ks \<equiv> (if a then [ROUTE_OPTIMIZATION] else []) @ (if b then [CUSTOMER_COMMUNICATION] else [])
     @ (if c then [SENTIMENT_ANALYSIS] else []) @ (if s then [STRATEGIC_PLANNING] else [])
     @ (if e then [EMERGENCY_RESPONSE] else [])"
  shows "(ROUTE_OPTIMIZATION \<in> set ks) = a"
    and "(CUSTOMER_COMMUNICATION \<in> set ks) = b"
    and "(SENTIMENT_ANALYSIS \<in> set ks) = c"
    and "(STRATEGIC_PLANNING \<in> set ks) = s"
    and "(EMERGENCY_RESPONSE \<in> set ks) = e"
    and "length (filter (\<lambda>k. k \<in> set signal_kinds) ks) = sum_bools [a, b, c]"
    and "ks = filter (\<lambda>k. k \<in> set ks) router_order"
    and "distinct ks"
  unfolding ks_def
  by (cases a; cases b; cases c; cases s; cases e;
      simp add: signal_kinds_def router_order_def sum_bools_def)+

lemma priorities_props:
  fixes a b c s e :: bool
  shows "(if a then [''high''] else []) @ (if b then [''high''] else [])
     @ (if c then [''medium''] else []) @ (if s then [''high''] else [])
     @ (if e then [''critical''] else [])
   = map router_tier ((if a then [ROUTE_OPTIMIZATION] else []) @ (if b then [CUSTOMER_COMMUNICATION] else [])
     @ (if c then [SENTIMENT_ANALYSIS] else []) @ (if s then [STRATEGIC_PLANNING] else [])
     @ (if e then [EMERGENCY_RESPONSE] else []))"
  by (simp add: router_tier_def)

text \<open>
  C3. For every disruption context the router emits a route-optimization task iff the
  lower-cased description holds a routing keyword, a customer-communication task iff it
  holds a communication keyword, a sentiment-analysis task iff it holds a
  negative-sentiment keyword, a strategic-planning task iff more than one of these three
  was emitted or the urgency is high or complex, and an emergency-response task iff the
  urgency is high or the description holds the emergency marker; each task carries the
  tier of its kind (high, high, medium, high, critical), the kinds appear in the order of
  the rules, and none appears twice. A description with the traffic, customer and angry
  keywords and urgency high yields all five kinds in that order.
\<close>

theorem router_rules:
  fixes pc :: disruption_dict
  defines "d \<equiv> lower (get_or (description pc) '''')"
    and "u \<equiv> get_or (urgency pc) ''medium''"
    and "ts \<equiv> recommended_tasks (analyze_problem_requirements pc)"
  shows "(ROUTE_OPTIMIZATION \<in> set (map ti_task ts)
            \<longleftrightarrow> any_in [''traffic'', ''route'', ''location'', ''delivery''] d)
       \<and> (CUSTOMER_COMMUNICATION \<in> set (map ti_task ts)
            \<longleftrightarrow> any_in [''customer'', ''notification'', ''communication''] d)
       \<and> (SENTIMENT_ANALYSIS \<in> set (map ti_task ts)
            \<longleftrightarrow> any_in [''angry'', ''frustrated'', ''complaint''] d)
       \<and> (STRATEGIC_PLANNING \<in> set (map ti_task ts)
            \<longleftrightarrow> length (filter (\<lambda>k. k \<in> set signal_kinds) (map ti_task ts)) > 1
                \<or> u = ''high'' \<or> u = ''complex'')
       \<and> (EMERGENCY_RESPONSE \<in> set (map ti_task ts)
            \<longleftrightarrow> u = ''high'' \<or> py_in ''emergency'' d)
       \<and> map ti_priority ts = map router_tier (map ti_task ts)
       \<and> map ti_task ts = filter (\<lambda>k. k \<in> set (map ti_task ts)) router_order
       \<and> distinct (map ti_task ts)
       \<and> (py_in ''traffic'' d \<and> py_in ''customer'' d \<and> py_in ''angry'' d \<and> u = ''high''
            \<longrightarrow> map ti_task ts = router_order
              \<and> map ti_priority ts = [''high'', ''high'', ''medium'', ''high'', ''critical''])"
proof -
  define a where "a = any_in [''traffic'', ''route'', ''location'', ''delivery''] d"
  define b where "b = any_in [''customer'', ''notification'', ''communication''] d"
  define c where "c = any_in [''angry'', ''frustrated'', ''complaint''] d"
  define s where "s = (sum_bools [a, b, c] > 1 \<or> u = ''high'' \<or> u = ''complex'')"
  define e where "e = (u = ''high'' \<or> py_in ''emergency'' d)"
  define ks where "ks = (if a then [ROUTE_OPTIMIZATION] else []) @ (if b then [CUSTOMER_COMMUNICATION] else [])
     @ (if c then [SENTIMENT_ANALYSIS] else []) @ (if s then [STRATEGIC_PLANNING] else [])
     @ (if e then [EMERGENCY_RESPONSE] else [])"
  have ts: "ts = opt_task a ROUTE_OPTIMIZATION ''high''
       @ opt_task b CUSTOMER_COMMUNICATION ''high''
       @ opt_task c SENTIMENT_ANALYSIS ''medium''
       @ opt_task s STRATEGIC_PLANNING ''high''
       @ opt_task e EMERGENCY_RESPONSE ''critical''"
    unfolding ts_def recommended_shape Let_def a_def b_def c_def s_def e_def d_def u_def ..
  have kinds: "map ti_task ts = ks"
    unfolding ts ks_def by (rule shape_kinds)
  have prios: "map ti_priority ts = map router_tier ks"
    unfolding ts ks_def shape_priorities by (rule priorities_props)
  note kp = kinds_props [of a b c s e, folded ks_def]
  have cnt: "length (filter (\<lambda>k. k \<in> set signal_kinds) ks) = sum_bools [a, b, c]"
    by (rule kp(6))
  have strategic: "(STRATEGIC_PLANNING \<in> set ks) =
      (length (filter (\<lambda>k. k \<in> set signal_kinds) ks) > 1 \<or> u = ''high'' \<or> u = ''complex'')"
    unfolding kp(4) cnt s_def ..
  have full: "ks = router_order
      \<and> map router_tier ks = [''high'', ''high'', ''medium'', ''high'', ''critical'']"
    if h: "py_in ''traffic'' d" "py_in ''customer'' d" "py_in ''angry'' d" "u = ''high''"
  proof -
    have "a" "b" "c" using h by (simp_all add: a_def b_def c_def any_in_def)
    moreover have "s" "e" using h by (simp_all add: s_def e_def)
    ultimately show ?thesis
      unfolding ks_def by (simp add: router_order_def router_tier_def)
  qed
  have r: "(ROUTE_OPTIMIZATION \<in> set ks) = any_in [''traffic'', ''route'', ''location'', ''delivery''] d"
    unfolding kp(1) a_def ..
  have cu: "(CUSTOMER_COMMUNICATION \<in> set ks) = any_in [''customer'', ''notification'', ''communication''] d"
    unfolding kp(2) b_def ..
  have se: "(SENTIMENT_ANALYSIS \<in> set ks) = any_in [''angry'', ''frustrated'', ''complaint''] d"
    unfolding kp(3) c_def ..
  have em: "(EMERGENCY_RESPONSE \<in> set ks) = (u = ''high'' \<or> py_in ''emergency'' d)"
    unfolding kp(5) e_def ..
  show ?thesis
    unfolding kinds prios
    using r cu se strategic em kp(7) kp(8) full by blast
qed

lemma sample_facts:
  "py_in ''traffic'' (lower (get_or (description sample_disruption) ''''))"
  "py_in ''customer'' (lower (get_or (description sample_disruption) ''''))"
  "py_in ''angry'' (lower (get_or (description sample_disruption) ''''))"
  "get_or (urgency sample_disruption) ''medium'' = ''high''"
  by (simp_all add: sample_disruption_def get_or_def lower_def lower_char_def)

theorem router_rules_witness:
  "py_in ''traffic'' (lower (get_or (description sample_disruption) ''''))
   \<and> py_in ''customer'' (lower (get_or (description sample_disruption) ''''))
   \<and> py_in ''angry'' (lower (get_or (description sample_disruption) ''''))
   \<and> get_or (urgency sample_disruption) ''medium'' = ''high''
   \<and> map ti_task (recommended_tasks (analyze_problem_requirements sample_disruption)) = router_order
   \<and> map ti_priority (recommended_tasks (analyze_problem_requirements sample_disruption))
       = [''high'', ''high'', ''medium'', ''high'', ''critical'']"
  using router_rules [of sample_disruption] sample_facts by blast

text \<open>
  C6 (amended). For the food and the express specialist: when two or more of the agent's
  urgent signals fire (the field signals and the description keywords counted together),
  the classification is urgent; when fewer than two fire it is not urgent, and it is
  complex when two or more complex signals fire, medium otherwise.
\<close>

theorem urgency_threshold_rule:
  "(sum_bools (food_urgent_factors task) \<ge> 2
      \<longrightarrow> GrabFoodAgent_determine_urgency task = ''urgent'')
   \<and> (sum_bools (food_urgent_factors task) < 2
      \<longrightarrow> GrabFoodAgent_determine_urgency task \<noteq> ''urgent''
          \<and> GrabFoodAgent_determine_urgency task =
              (if sum_bools (food_complex_factors task) \<ge> 2 then ''complex'' else ''medium''))
   \<and> (sum_bools (express_urgent_factors task) \<ge> 2
      \<longrightarrow> GrabExpressAgent_determine_urgency task = ''urgent'')
   \<and> (sum_bools (express_urgent_factors task) < 2
      \<longrightarrow> GrabExpressAgent_determine_urgency task \<noteq> ''urgent''
          \<and> GrabExpressAgent_determine_urgency task =
              (if sum_bools (express_complex_factors task) \<ge> 2 then ''complex'' else ''medium''))"
  by (simp add: GrabFoodAgent_determine_urgency_def GrabExpressAgent_determine_urgency_def)

lemma task_hot_facts:
  "sum_bools (food_urgent_factors task_hot) = 2"
  "sum_bools (express_urgent_factors task_hot) = 2"
  "keywords_in_description food_urgent_keywords task_hot = 0"
  "keywords_in_description express_urgent_keywords task_hot = 0"
  by (simp_all add: task_hot_def food_urgent_factors_def express_urgent_factors_def
        keywords_in_description_def food_urgent_keywords_def express_urgent_keywords_def
        sum_bools_def get_or_def lower_def lower_char_def)

lemma task_calm_facts:
  "sum_bools (food_urgent_factors task_calm) = 0"
  "sum_bools (express_urgent_factors task_calm) = 0"
  "sum_bools (food_complex_factors task_calm) = 2"
  "sum_bools (express_complex_factors task_calm) = 2"
  by (simp_all add: task_calm_def food_urgent_factors_def express_urgent_factors_def
        food_complex_factors_def express_complex_factors_def
        sum_bools_def get_or_def lower_def lower_char_def)

theorem urgency_threshold_rule_witness:
  "2 \<le> sum_bools (food_urgent_factors task_hot)
   \<and> GrabFoodAgent_determine_urgency task_hot = ''urgent''
   \<and> sum_bools (food_urgent_factors task_calm) < 2
   \<and> GrabFoodAgent_determine_urgency task_calm = ''complex''
   \<and> 2 \<le> sum_bools (express_urgent_factors task_hot)
   \<and> GrabExpressAgent_determine_urgency task_hot = ''urgent''
   \<and> sum_bools (express_urgent_factors task_calm) < 2
   \<and> GrabExpressAgent_determine_urgency task_calm = ''complex''"
  using urgency_threshold_rule [of task_hot] urgency_threshold_rule [of task_calm]
  by (simp add: task_hot_facts task_calm_facts)

text \<open>
  The description's keywords alone do not decide: a task whose description holds none of
  the urgent keywords is classified urgent by its urgency and order-count (or package-value)
  fields.
\<close>

theorem urgency_keywords_counterexample:
  "keywords_in_description food_urgent_keywords task_hot = 0
   \<and> GrabFoodAgent_determine_urgency task_hot = ''urgent''
   \<and> keywords_in_description express_urgent_keywords task_hot = 0
   \<and> GrabExpressAgent_determine_urgency task_hot = ''urgent''"
  by (simp add: task_hot_facts GrabFoodAgent_determine_urgency_def
        GrabExpressAgent_determine_urgency_def)

subsection \<open>Gateway calls and the scheduler loop\<close>

lemma generate_response_for_agent_eq:
  "generate_response_for_agent gw a p u ctx lm =
     (Inr (case gw (length (requests lm)) (agent_request lm a p u ctx) of
             Inl msg \<Rightarrow> fallback_response p a msg
           | Inr text \<Rightarrow>
               \<lparr> r_content = text,
                 r_provider = Some ''lm_studio'',
                 r_active_model = Some (current_active_model lm),
                 r_optimal_model = Some (get_optimal_model_for_agent a u),
                 r_agent_type = Some a,
                 r_urgency = Some u,
                 r_confidence = calculate_confidence text a,
                 r_error = None \<rparr>),
      lm\<lparr> requests := requests lm @ [agent_request lm a p u ctx] \<rparr>)"
  by (simp add: generate_response_for_agent_def chat_completions_create_def Let_def
           split: sum.splits)

lemma req_model_agent_request [simp]:
  "req_model (agent_request lm a p u ctx) = current_active_model lm"
  by (simp add: agent_request_def Let_def)

lemma generate_response_for_agent_ex:
  "\<exists>resp :: llm_response. generate_response_for_agent gw a p u ctx lm =
     (Inr resp, lm\<lparr> requests := requests lm @ [agent_request lm a p u ctx] \<rparr>)"
  by (simp add: generate_response_for_agent_eq)

lemma execute_specialized_task_eq:
  "\<exists>(resp :: llm_response) req. execute_specialized_task gw tn mn pr pc lm =
     (Inr \<lparr> tr_task = tn, tr_model = mn, tr_priority = pr, tr_response = r_content resp,
            tr_confidence = r_confidence resp, tr_specialized = True \<rparr>,
      lm\<lparr> requests := requests lm @ [req] \<rparr>)
     \<and> req_model req = current_active_model lm"
proof -
  let ?p = "get_or (map_of (task_prompts mn pc) tn) (''Analyze: '' @ fmt (description pc))"
  let ?u = "get_or (urgency pc) ''medium''"
  obtain resp :: llm_response where g:
    "generate_response_for_agent gw (''specialist_'' @ tn) ?p ?u None lm =
       (Inr resp, lm\<lparr> requests := requests lm
          @ [agent_request lm (''specialist_'' @ tn) ?p ?u None] \<rparr>)"
    using generate_response_for_agent_ex by blast
  have "execute_specialized_task gw tn mn pr pc lm =
     (Inr \<lparr> tr_task = tn, tr_model = mn, tr_priority = pr, tr_response = r_content resp,
            tr_confidence = r_confidence resp, tr_specialized = True \<rparr>,
      lm\<lparr> requests := requests lm @ [agent_request lm (''specialist_'' @ tn) ?p ?u None] \<rparr>)"
    unfolding execute_specialized_task_def Let_def g by simp
  then show ?thesis
    by (simp add: exI [of _ resp]
          exI [of _ "agent_request lm (''specialist_'' @ tn) ?p ?u None"])
qed

lemma switch_model_guarded:
  "(if Some m \<noteq> current_loaded_model orch then switch_model m orch else orch) =
     \<lparr> current_loaded_model = Some m,
       model_switch_count = model_switch_count orch + (if Some m \<noteq> current_loaded_model orch then 1 else 0) \<rparr>"
  by (cases orch) (auto simp: switch_model_def)

lemma execute_tasks_run:
  "\<exists>rs lm'. execute_tasks gw pc tasks acc orch lm =
      (Inr (acc @ rs),
       \<lparr> current_loaded_model =
           (if tasks = [] then current_loaded_model orch else Some (ti_model (last tasks))),
         model_switch_count =
           model_switch_count orch + loads (current_loaded_model orch) (map ti_model tasks) \<rparr>,
       lm')
    \<and> length rs = length tasks
    \<and> current_active_model lm' = current_active_model lm
    \<and> map req_model (requests lm') =
        map req_model (requests lm) @ replicate (length tasks) (current_active_model lm)"
proof (induction tasks arbitrary: acc orch lm)
  case Nil
  show ?case by (cases orch) simp
next
  case (Cons t ts)
  let ?orch = "\<lparr> current_loaded_model = Some (ti_model t),
       model_switch_count = model_switch_count orch
         + (if Some (ti_model t) \<noteq> current_loaded_model orch then 1 else 0) \<rparr>"
  obtain resp :: llm_response and req where step:
    "execute_specialized_task gw (TaskType_value (ti_task t)) (ti_model t) (ti_priority t) pc lm =
       (Inr \<lparr> tr_task = TaskType_value (ti_task t), tr_model = ti_model t,
              tr_priority = ti_priority t, tr_response = r_content resp,
              tr_confidence = r_confidence resp, tr_specialized = True \<rparr>,
        lm\<lparr> requests := requests lm @ [req] \<rparr>)"
    and req: "req_model req = current_active_model lm"
    using execute_specialized_task_eq by blast
  let ?r = "\<lparr> tr_task = TaskType_value (ti_task t), tr_model = ti_model t,
              tr_priority = ti_priority t, tr_response = r_content resp,
              tr_confidence = r_confidence resp, tr_specialized = True \<rparr>"
  let ?lm = "lm\<lparr> requests := requests lm @ [req] \<rparr>"
  have unfold: "execute_tasks gw pc (t # ts) acc orch lm =
      execute_tasks gw pc ts (acc @ [?r]) ?orch ?lm"
    by (simp only: execute_tasks.simps Let_def switch_model_guarded step prod.case sum.case)
  from Cons.IH [of "acc @ [?r]" ?orch ?lm]
  obtain rs lm' where ih:
    "execute_tasks gw pc ts (acc @ [?r]) ?orch ?lm =
      (Inr ((acc @ [?r]) @ rs),
       \<lparr> current_loaded_model =
           (if ts = [] then current_loaded_model ?orch else Some (ti_model (last ts))),
         model_switch_count =
           model_switch_count ?orch + loads (current_loaded_model ?orch) (map ti_model ts) \<rparr>,
       lm')"
    "length rs = length ts"
    "current_active_model lm' = current_active_model ?lm"
    "map req_model (requests lm') =
        map req_model (requests ?lm) @ replicate (length ts) (current_active_model ?lm)"
    by blast
  show ?case
    apply (rule exI [of _ "?r # rs"], rule exI [of _ lm'])
    using ih req unfolding unfold
    by (simp add: replicate_append_same)
qed

lemma loads_adjacent:
  "loads (Some m0) ms = adjacent_changes (m0 # ms)"
  by (induction ms arbitrary: m0) (auto simp: adjacent_changes_def)

lemma loads_unset:
  "loads None ms = (if ms = [] then 0 else 1 + adjacent_changes ms)"
  by (cases ms) (simp_all add: loads_adjacent)

subsection \<open>Switch count\<close>

lemma execute_tasks_orch:
  "fst (snd (execute_tasks gw pc tasks acc orch lm)) =
     \<lparr> current_loaded_model =
         (if tasks = [] then current_loaded_model orch else Some (ti_model (last tasks))),
       model_switch_count =
         model_switch_count orch + loads (current_loaded_model orch) (map ti_model tasks) \<rparr>"
  using execute_tasks_run [of gw pc tasks acc orch lm] by auto

lemma execute_tasks_results:
  "\<exists>rs. fst (execute_tasks gw pc tasks acc orch lm) = Inr (acc @ rs) \<and> length rs = length tasks"
  using execute_tasks_run [of gw pc tasks acc orch lm] by auto

lemma execute_tasks_lm:
  "current_active_model (snd (snd (execute_tasks gw pc tasks acc orch lm))) = current_active_model lm
   \<and> map req_model (requests (snd (snd (execute_tasks gw pc tasks acc orch lm)))) =
        map req_model (requests lm) @ replicate (length tasks) (current_active_model lm)"
  using execute_tasks_run [of gw pc tasks acc orch lm] by auto

text \<open>
  C2 (amended). Starting from the initial orchestrator (no backend loaded, switch count 0),
  running a task list switches exactly at the tasks whose backend is not the one loaded
  when they are reached. The first task always loads a backend, so the final switch count
  is 0 for the empty list and otherwise one more than the number of adjacent pairs whose
  backends differ; for backends A, A, B, A it is 3. A task on the backend already loaded
  leaves the orchestrator's fields as they are; any other task loads its backend and adds
  one to the count.
\<close>

theorem scheduler_switch_count:
  "model_switch_count
       (fst (snd (execute_tasks gw pc tasks [] MultiModelOrchestrator_init lm)))
     = loads None (map ti_model tasks)
   \<and> model_switch_count
       (fst (snd (execute_tasks gw pc tasks [] MultiModelOrchestrator_init lm)))
     = (if tasks = [] then 0 else 1 + adjacent_changes (map ti_model tasks))
   \<and> (a \<noteq> b \<and> map ti_model tasks = [a, a, b, a]
        \<longrightarrow> model_switch_count
              (fst (snd (execute_tasks gw pc tasks [] MultiModelOrchestrator_init lm))) = 3)
   \<and> (current_loaded_model orch = Some (ti_model t)
        \<longrightarrow> fst (snd (execute_tasks gw pc [t] acc orch lm)) = orch)
   \<and> (current_loaded_model orch \<noteq> Some (ti_model t)
        \<longrightarrow> fst (snd (execute_tasks gw pc [t] acc orch lm)) =
              \<lparr> current_loaded_model = Some (ti_model t),
                model_switch_count = model_switch_count orch + 1 \<rparr>)"
proof -
  have init: "model_switch_count
       (fst (snd (execute_tasks gw pc tasks [] MultiModelOrchestrator_init lm)))
     = loads None (map ti_model tasks)"
    by (simp add: execute_tasks_orch MultiModelOrchestrator_init_def)
  have ex: "loads None [a, a, b, a] = 3" if "a \<noteq> b"
    using that by auto
  have single: "fst (snd (execute_tasks gw pc [t] acc orch lm)) =
      \<lparr> current_loaded_model = Some (ti_model t),
        model_switch_count = model_switch_count orch
          + (if Some (ti_model t) \<noteq> current_loaded_model orch then 1 else 0) \<rparr>"
    unfolding execute_tasks_orch by simp
  have same: "fst (snd (execute_tasks gw pc [t] acc orch lm)) = orch"
    if "current_loaded_model orch = Some (ti_model t)"
    unfolding single using that by (cases orch) simp
  have diff: "fst (snd (execute_tasks gw pc [t] acc orch lm)) =
              \<lparr> current_loaded_model = Some (ti_model t),
                model_switch_count = model_switch_count orch + 1 \<rparr>"
    if "current_loaded_model orch \<noteq> Some (ti_model t)"
    unfolding single using that by auto
  have adj: "model_switch_count
       (fst (snd (execute_tasks gw pc tasks [] MultiModelOrchestrator_init lm)))
     = (if tasks = [] then 0 else 1 + adjacent_changes (map ti_model tasks))"
    unfolding init loads_unset by simp
  have aaba: "model_switch_count
       (fst (snd (execute_tasks gw pc tasks [] MultiModelOrchestrator_init lm))) = 3"
    if "a \<noteq> b \<and> map ti_model tasks = [a, a, b, a]"
    unfolding init using that ex by simp
  show ?thesis
    using init adj aaba same diff by blast
qed

lemma models_AABA: "map ti_model tasks_AABA = [''A'', ''A'', ''B'', ''A'']"
  by (simp add: tasks_AABA_def)

theorem scheduler_switch_count_witness:
  "''A'' \<noteq> ''B''
   \<and> map ti_model tasks_AABA = [''A'', ''A'', ''B'', ''A'']
   \<and> model_switch_count
        (fst (snd (execute_tasks gw_ok sample_disruption tasks_AABA []
                     MultiModelOrchestrator_init LMStudioManager_init))) = 3
   \<and> current_loaded_model \<lparr> current_loaded_model = Some ''A'', model_switch_count = 1 \<rparr>
        = Some (ti_model (hd tasks_AABA))
   \<and> fst (snd (execute_tasks gw_ok sample_disruption [hd tasks_AABA] []
                  \<lparr> current_loaded_model = Some ''A'', model_switch_count = 1 \<rparr>
                  LMStudioManager_init))
       = \<lparr> current_loaded_model = Some ''A'', model_switch_count = 1 \<rparr>
   \<and> current_loaded_model MultiModelOrchestrator_init \<noteq> Some (ti_model (hd tasks_AABA))
   \<and> fst (snd (execute_tasks gw_ok sample_disruption [hd tasks_AABA] []
                  MultiModelOrchestrator_init LMStudioManager_init))
       = \<lparr> current_loaded_model = Some ''A'', model_switch_count = 1 \<rparr>"
proof -
  have h1: "''A'' \<noteq> ''B''" by simp
  have h2: "current_loaded_model \<lparr> current_loaded_model = Some ''A'', model_switch_count = 1 \<rparr>
        = Some (ti_model (hd tasks_AABA))"
    by (simp add: tasks_AABA_def)
  have h3: "current_loaded_model MultiModelOrchestrator_init \<noteq> Some (ti_model (hd tasks_AABA))"
    by (simp add: MultiModelOrchestrator_init_def)
  note t1 = scheduler_switch_count [of gw_ok sample_disruption tasks_AABA LMStudioManager_init
      "''A''" "''B''" "\<lparr> current_loaded_model = Some ''A'', model_switch_count = 1 \<rparr>"
      "hd tasks_AABA" "[]"]
  note t2 = scheduler_switch_count [of gw_ok sample_disruption tasks_AABA LMStudioManager_init
      "''A''" "''B''" MultiModelOrchestrator_init "hd tasks_AABA" "[]"]
  have c3: "model_switch_count
        (fst (snd (execute_tasks gw_ok sample_disruption tasks_AABA []
                     MultiModelOrchestrator_init LMStudioManager_init))) = 3"
    using t1 h1 models_AABA by blast
  have c5: "fst (snd (execute_tasks gw_ok sample_disruption [hd tasks_AABA] []
                  \<lparr> current_loaded_model = Some ''A'', model_switch_count = 1 \<rparr>
                  LMStudioManager_init))
       = \<lparr> current_loaded_model = Some ''A'', model_switch_count = 1 \<rparr>"
    using t1 h2 by blast
  have c7: "fst (snd (execute_tasks gw_ok sample_disruption [hd tasks_AABA] []
                  MultiModelOrchestrator_init LMStudioManager_init))
       = \<lparr> current_loaded_model = Some (ti_model (hd tasks_AABA)),
           model_switch_count = model_switch_count MultiModelOrchestrator_init + 1 \<rparr>"
    using t2 h3 by blast
  have c7': "fst (snd (execute_tasks gw_ok sample_disruption [hd tasks_AABA] []
                  MultiModelOrchestrator_init LMStudioManager_init))
       = \<lparr> current_loaded_model = Some ''A'', model_switch_count = 1 \<rparr>"
    unfolding c7 by (simp add: tasks_AABA_def MultiModelOrchestrator_init_def)
  show ?thesis
    using h1 models_AABA c3 h2 c5 h3 c7' by blast
qed

text \<open>
  The count of adjacent differing pairs alone is not the switch count: on A, A, B, A the
  code switches three times and two adjacent pairs differ.
\<close>

theorem scheduler_switch_count_counterexample:
  "model_switch_count
        (fst (snd (execute_tasks gw_ok sample_disruption tasks_AABA []
                     MultiModelOrchestrator_init LMStudioManager_init))) = 3
   \<and> adjacent_changes (map ti_model tasks_AABA) = 2"
  by (simp add: execute_tasks_orch MultiModelOrchestrator_init_def models_AABA
        adjacent_changes_def)

subsection \<open>The transition out of validation\<close>

text \<open>
  C1 (amended). With the default thresholds, the node after \<open>validate_solution\<close> is
  \<open>escalate_to_human\<close> when the confidence score is below 0.6,
  \<open>execute_specialist_task\<close> again when it is at least 0.6 and below 0.8, and
  \<open>customer_communication\<close> when it is at least 0.8; \<open>customer_communication\<close> is always
  followed by \<open>finalize_solution\<close>, after which the run ends. Each band includes its lower
  bound: exactly 0.6 retries and exactly 0.8 communicates.
\<close>

theorem validate_transition:
  "(confidence_score state < 0.6
      \<longrightarrow> successor Config N_validate_solution state = N_escalate_to_human)
   \<and> (0.6 \<le> confidence_score state \<and> confidence_score state < 0.8
      \<longrightarrow> successor Config N_validate_solution state = N_execute_specialist_task)
   \<and> (0.8 \<le> confidence_score state
      \<longrightarrow> successor Config N_validate_solution state = N_customer_communication)
   \<and> successor cfg N_customer_communication state = N_finalize_solution
   \<and> successor cfg N_finalize_solution state = END
   \<and> successor cfg N_escalate_to_human state = END
   \<and> run_node gw N_execute_specialist_task state lm = execute_specialist_task gw state lm"
  by (simp add: should_escalate_def Config_def conditional_edges_def get_or_def)

lemma state_with_confidence [simp]:
  "confidence_score (state_with_confidence c) = c"
  by (simp add: state_with_confidence_def)

theorem validate_transition_witness:
  "confidence_score (state_with_confidence 0.55) < 0.6
   \<and> successor Config N_validate_solution (state_with_confidence 0.55) = N_escalate_to_human
   \<and> 0.6 \<le> confidence_score (state_with_confidence 0.75)
   \<and> confidence_score (state_with_confidence 0.75) < 0.8
   \<and> successor Config N_validate_solution (state_with_confidence 0.75)
       = N_execute_specialist_task
   \<and> 0.8 \<le> confidence_score (state_with_confidence 0.85)
   \<and> successor Config N_validate_solution (state_with_confidence 0.85)
       = N_customer_communication
   \<and> successor Config N_customer_communication (state_with_confidence 0.85)
       = N_finalize_solution
   \<and> successor Config N_validate_solution (state_with_confidence 0.6)
       = N_execute_specialist_task
   \<and> successor Config N_validate_solution (state_with_confidence 0.8)
       = N_customer_communication"
  using validate_transition [of "state_with_confidence 0.55"]
        validate_transition [of "state_with_confidence 0.75"]
        validate_transition [of "state_with_confidence 0.85"]
        validate_transition [of "state_with_confidence 0.6"]
        validate_transition [of "state_with_confidence 0.8"]
  by simp

text \<open>
  At the boundaries the code does not take the branch of the lower confidence: 0.6 does not
  escalate and 0.8 does not retry.
\<close>

theorem validate_boundary_counterexample:
  "successor Config N_validate_solution (state_with_confidence 0.6) \<noteq> N_escalate_to_human
   \<and> successor Config N_validate_solution (state_with_confidence 0.8)
        \<noteq> N_execute_specialist_task"
  by (simp add: should_escalate_def Config_def conditional_edges_def get_or_def)

subsection \<open>Confidence across the scheduler's results\<close>

lemma calculate_confidence_range:
  "0.1 \<le> calculate_confidence content a \<and> calculate_confidence content a \<le> 0.95"
  by (simp add: calculate_confidence_def Let_def)

lemma generate_response_for_agent_confidence:
  assumes "fst (generate_response_for_agent gw a p u ctx lm) = Inr resp"
  shows "0.1 \<le> r_confidence resp \<and> r_confidence resp \<le> 0.95"
proof (cases "gw (length (requests lm)) (agent_request lm a p u ctx)")
  case (Inl msg)
  with assms show ?thesis
    by (auto simp: generate_response_for_agent_eq fallback_response_def)
next
  case (Inr reply)
  with assms calculate_confidence_range [of reply a] show ?thesis
    by (auto simp: generate_response_for_agent_eq)
qed

lemma execute_specialized_task_confidence:
  assumes "fst (execute_specialized_task gw tn mn pr pc lm) = Inr r"
  shows "in_range r"
proof -
  let ?p = "get_or (map_of (task_prompts mn pc) tn) (''Analyze: '' @ fmt (description pc))"
  let ?u = "get_or (urgency pc) ''medium''"
  obtain resp :: llm_response where g:
    "generate_response_for_agent gw (''specialist_'' @ tn) ?p ?u None lm =
       (Inr resp, lm\<lparr> requests := requests lm
          @ [agent_request lm (''specialist_'' @ tn) ?p ?u None] \<rparr>)"
    using generate_response_for_agent_ex by blast
  have "fst (generate_response_for_agent gw (''specialist_'' @ tn) ?p ?u None lm) = Inr resp"
    unfolding g by simp
  from generate_response_for_agent_confidence [OF this]
  have c: "0.1 \<le> r_confidence resp \<and> r_confidence resp \<le> 0.95" .
  have "tr_confidence r = r_confidence resp"
    using assms unfolding execute_specialized_task_def Let_def g by auto
  with c show ?thesis by (simp add: in_range_def)
qed

lemma execute_tasks_confidence:
  assumes "list_all in_range acc"
    and "fst (execute_tasks gw pc tasks acc orch lm) = Inr rs"
  shows "list_all in_range rs"
  using assms
proof (induction tasks arbitrary: acc orch lm)
  case Nil
  then show ?case by simp
next
  case (Cons t ts)
  obtain res lm1 where e:
    "execute_specialized_task gw (TaskType_value (ti_task t)) (ti_model t) (ti_priority t) pc lm
       = (res, lm1)"
    by (cases "execute_specialized_task gw (TaskType_value (ti_task t)) (ti_model t)
                 (ti_priority t) pc lm")
  show ?case
  proof (cases res)
    case (Inl x)
    with Cons.prems(2) e show ?thesis by (simp add: Let_def)
  next
    case (Inr r)
    have "in_range r"
      by (rule execute_specialized_task_confidence
            [of gw "TaskType_value (ti_task t)" "ti_model t" "ti_priority t" pc lm])
         (simp add: e Inr)
    with Cons.prems(1) have acc: "list_all in_range (acc @ [r])" by simp
    from Cons.prems(2) e Inr
    have "fst (execute_tasks gw pc ts (acc @ [r])
                (if Some (ti_model t) \<noteq> current_loaded_model orch
                 then switch_model (ti_model t) orch else orch) lm1) = Inr rs"
      by (simp add: Let_def)
    with Cons.IH [OF acc] show ?thesis by blast
  qed
qed

lemma tier_weight_code:
  "get_or (map_of priority_weights tier) 0.5 = tier_weight tier"
  by (simp add: priority_weights_def tier_weight_def get_or_def)

lemma tier_weight_pos: "0 < tier_weight tier"
  by (simp add: tier_weight_def)

lemma weigh_step:
  "weigh (r # rs) (ws, tw) =
     weigh rs (ws + tr_confidence r * tier_weight (tr_priority r),
               tw + tier_weight (tr_priority r))"
  by (simp only: weigh.simps Let_def tier_weight_code)

lemma weigh_sums:
  "weigh rs (ws, tw) =
     (ws + sum_list (map (\<lambda>r. tr_confidence r * tier_weight (tr_priority r)) rs),
      tw + sum_list (map (\<lambda>r. tier_weight (tr_priority r)) rs))"
proof (induction rs arbitrary: ws tw)
  case Nil
  show ?case by simp
next
  case (Cons r rs)
  show ?case
    unfolding weigh_step Cons.IH by (simp add: add.assoc)
qed

lemma total_weight_pos:
  "rs \<noteq> [] \<Longrightarrow> 0 < sum_list (map (\<lambda>r. tier_weight (tr_priority r)) rs)"
proof (induction rs)
  case Nil
  then show ?case by simp
next
  case (Cons r rs)
  have "0 \<le> sum_list (map (\<lambda>r. tier_weight (tr_priority r)) rs)"
    by (rule sum_list_nonneg) (auto simp: tier_weight_pos less_imp_le)
  with tier_weight_pos [of "tr_priority r"] show ?case by simp
qed

lemma weighted_sum_nonneg:
  "list_all (\<lambda>r. 0 \<le> tr_confidence r) rs
     \<Longrightarrow> 0 \<le> sum_list (map (\<lambda>r. tr_confidence r * tier_weight (tr_priority r)) rs)"
  by (rule sum_list_nonneg) (auto simp: list_all_iff tier_weight_pos less_imp_le)

lemma confidence_closed_form:
  assumes "rs \<noteq> []"
  shows "calculate_multi_model_confidence rs =
     min 0.95 (sum_list (map (\<lambda>r. tr_confidence r * tier_weight (tr_priority r)) rs)
                 / sum_list (map (\<lambda>r. tier_weight (tr_priority r)) rs)
               + min 0.15 (0.03 * real (card (set (map tr_model rs)))))"
proof -
  have w: "weigh rs (0, 0) =
      (sum_list (map (\<lambda>r. tr_confidence r * tier_weight (tr_priority r)) rs),
       sum_list (map (\<lambda>r. tier_weight (tr_priority r)) rs))"
    unfolding weigh_sums by simp
  have c: "real (card (set (map tr_model rs))) * 0.03 = 0.03 * real (card (set (map tr_model rs)))"
    by (rule mult.commute)
  show ?thesis
    unfolding calculate_multi_model_confidence_def w Let_def prod.case c
    using assms total_weight_pos [OF assms] by (simp only: if_False if_True)
qed

lemma confidence_upper: "calculate_multi_model_confidence rs \<le> 0.95"
proof (cases "rs = []")
  case True
  then show ?thesis by (simp add: calculate_multi_model_confidence_def)
next
  case False
  show ?thesis
    unfolding confidence_closed_form [OF False] by (rule min.cobounded1)
qed

lemma confidence_lower:
  assumes "list_all (\<lambda>r. 0 \<le> tr_confidence r) rs"
  shows "0 \<le> calculate_multi_model_confidence rs"
proof (cases "rs = []")
  case True
  then show ?thesis by (simp add: calculate_multi_model_confidence_def)
next
  case False
  have "0 \<le> sum_list (map (\<lambda>r. tr_confidence r * tier_weight (tr_priority r)) rs)
                 / sum_list (map (\<lambda>r. tier_weight (tr_priority r)) rs)"
    using weighted_sum_nonneg [OF assms] total_weight_pos [OF False] by simp
  moreover have "0 \<le> min 0.15 (0.03 * real (card (set (map tr_model rs))))"
    by simp
  ultimately have "0 \<le> sum_list (map (\<lambda>r. tr_confidence r * tier_weight (tr_priority r)) rs)
                 / sum_list (map (\<lambda>r. tier_weight (tr_priority r)) rs)
               + min 0.15 (0.03 * real (card (set (map tr_model rs))))"
    by (rule add_nonneg_nonneg)
  then show ?thesis
    unfolding confidence_closed_form [OF False] by simp
qed

lemma synthesize_multi_model_results_eq:
  "\<exists>resp :: llm_response.
     generate_response_for_agent gw ''master_synthesizer'' (master_synthesis_prompt rs pc)
       ''complex'' None lm =
       (Inr resp, lm\<lparr> requests := requests lm
          @ [agent_request lm ''master_synthesizer'' (master_synthesis_prompt rs pc)
               ''complex'' None] \<rparr>)
     \<and> synthesize_multi_model_results gw rs pc lm =
       (Inr \<lparr> unified_plan = r_content resp,
              synthesis_confidence = r_confidence resp,
              models_synthesized = card (set (map tr_model rs)),
              priority_levels = card (set (map tr_priority rs)),
              comprehensive = True \<rparr>,
        lm\<lparr> requests := requests lm
          @ [agent_request lm ''master_synthesizer'' (master_synthesis_prompt rs pc)
               ''complex'' None] \<rparr>)"
proof -
  obtain resp :: llm_response where g:
    "generate_response_for_agent gw ''master_synthesizer'' (master_synthesis_prompt rs pc)
       ''complex'' None lm =
       (Inr resp, lm\<lparr> requests := requests lm
          @ [agent_request lm ''master_synthesizer'' (master_synthesis_prompt rs pc)
               ''complex'' None] \<rparr>)"
    using generate_response_for_agent_ex by blast
  show ?thesis
    apply (rule exI [of _ resp])
    unfolding synthesize_multi_model_results_def g by simp
qed

lemma execute_multi_model_analysis_eq:
  "\<exists>rs (resp :: llm_response) orch1 lm1.
     execute_tasks gw pc (recommended_tasks (analyze_problem_requirements pc)) [] orch lm =
       (Inr rs, orch1, lm1)
     \<and> generate_response_for_agent gw ''master_synthesizer'' (master_synthesis_prompt rs pc)
         ''complex'' None lm1 =
       (Inr resp, lm1\<lparr> requests := requests lm1
          @ [agent_request lm1 ''master_synthesizer'' (master_synthesis_prompt rs pc)
               ''complex'' None] \<rparr>)
     \<and> execute_multi_model_analysis gw pc orch lm =
       (Inr \<lparr> problem_analysis = analyze_problem_requirements pc,
              task_results = rs,
              ar_final_solution =
                \<lparr> unified_plan = r_content resp,
                  synthesis_confidence = r_confidence resp,
                  models_synthesized = card (set (map tr_model rs)),
                  priority_levels = card (set (map tr_priority rs)),
                  comprehensive = True \<rparr>,
              models_used = models_needed (analyze_problem_requirements pc),
              model_switches = model_switch_count orch1,
              overall_confidence = calculate_multi_model_confidence rs \<rparr>,
        orch1,
        lm1\<lparr> requests := requests lm1
          @ [agent_request lm1 ''master_synthesizer'' (master_synthesis_prompt rs pc)
               ''complex'' None] \<rparr>)"
proof -
  let ?ts = "recommended_tasks (analyze_problem_requirements pc)"
  obtain rs orch1 lm1 where et: "execute_tasks gw pc ?ts [] orch lm = (Inr rs, orch1, lm1)"
    using execute_tasks_run [of gw pc ?ts "[]" orch lm] by auto
  obtain resp :: llm_response where g:
    "generate_response_for_agent gw ''master_synthesizer'' (master_synthesis_prompt rs pc)
       ''complex'' None lm1 =
       (Inr resp, lm1\<lparr> requests := requests lm1
          @ [agent_request lm1 ''master_synthesizer'' (master_synthesis_prompt rs pc)
               ''complex'' None] \<rparr>)"
    and sy: "synthesize_multi_model_results gw rs pc lm1 =
       (Inr \<lparr> unified_plan = r_content resp,
              synthesis_confidence = r_confidence resp,
              models_synthesized = card (set (map tr_model rs)),
              priority_levels = card (set (map tr_priority rs)),
              comprehensive = True \<rparr>,
        lm1\<lparr> requests := requests lm1
          @ [agent_request lm1 ''master_synthesizer'' (master_synthesis_prompt rs pc)
               ''complex'' None] \<rparr>)"
    using synthesize_multi_model_results_eq [of gw rs pc lm1] by blast
  show ?thesis
    apply (rule exI [of _ rs], rule exI [of _ resp], rule exI [of _ orch1], rule exI [of _ lm1])
    using g by (simp add: execute_multi_model_analysis_def Let_def et sy)
qed

lemma in_range_nonneg:
  "list_all in_range rs \<Longrightarrow> list_all (\<lambda>r. 0 \<le> tr_confidence r) rs"
  by (induction rs) (auto simp: in_range_def)

lemma three_example:
  assumes "tr_priority r1 = ''critical''" "tr_confidence r1 = 0.9"
    and "tr_priority r2 = ''high''" "tr_confidence r2 = 0.8"
    and "tr_priority r3 = ''medium''" "tr_confidence r3 = 0.7"
    and "card (set (map tr_model [r1, r2, r3])) = 2"
  shows "calculate_multi_model_confidence [r1, r2, r3] =
           min 0.95 ((0.9 * 1.0 + 0.8 * 0.8 + 0.7 * 0.6) / 2.4 + 0.06)"
proof -
  have ne: "[r1, r2, r3] \<noteq> []" by simp
  show ?thesis
    unfolding confidence_closed_form [OF ne] assms(7)
    by (simp add: assms(1-6) tier_weight_def)
qed

lemma pipeline_confidence:
  "\<exists>res (resp :: llm_response).
     fst (execute_multi_model_analysis gw pc orch lm) = Inr res
     \<and> overall_confidence res = calculate_multi_model_confidence (task_results res)
     \<and> 0 \<le> overall_confidence res \<and> overall_confidence res \<le> 0.95
     \<and> fst (generate_response_for_agent gw ''master_synthesizer''
              (master_synthesis_prompt (task_results res) pc) ''complex'' None
              (snd (snd (execute_tasks gw pc
                 (recommended_tasks (analyze_problem_requirements pc)) [] orch lm)))) = Inr resp
     \<and> synthesis_confidence (ar_final_solution res) = r_confidence resp"
proof -
  let ?ts = "recommended_tasks (analyze_problem_requirements pc)"
  obtain rs and resp :: llm_response and orch1 lm1 where
    et: "execute_tasks gw pc ?ts [] orch lm = (Inr rs, orch1, lm1)"
    and g: "generate_response_for_agent gw ''master_synthesizer'' (master_synthesis_prompt rs pc)
         ''complex'' None lm1 =
       (Inr resp, lm1\<lparr> requests := requests lm1
          @ [agent_request lm1 ''master_synthesizer'' (master_synthesis_prompt rs pc)
               ''complex'' None] \<rparr>)"
    and e: "execute_multi_model_analysis gw pc orch lm =
       (Inr \<lparr> problem_analysis = analyze_problem_requirements pc,
              task_results = rs,
              ar_final_solution =
                \<lparr> unified_plan = r_content resp,
                  synthesis_confidence = r_confidence resp,
                  models_synthesized = card (set (map tr_model rs)),
                  priority_levels = card (set (map tr_priority rs)),
                  comprehensive = True \<rparr>,
              models_used = models_needed (analyze_problem_requirements pc),
              model_switches = model_switch_count orch1,
              overall_confidence = calculate_multi_model_confidence rs \<rparr>,
        orch1,
        lm1\<lparr> requests := requests lm1
          @ [agent_request lm1 ''master_synthesizer'' (master_synthesis_prompt rs pc)
               ''complex'' None] \<rparr>)"
    using execute_multi_model_analysis_eq [of gw pc orch lm] by blast
  have "list_all in_range rs"
    by (rule execute_tasks_confidence [of "[]" gw pc ?ts orch lm]) (simp_all add: et)
  then have nn: "list_all (\<lambda>r. 0 \<le> tr_confidence r) rs"
    by (rule in_range_nonneg)
  show ?thesis
    apply (rule exI [of _ "\<lparr> problem_analysis = analyze_problem_requirements pc,
              task_results = rs,
              ar_final_solution =
                \<lparr> unified_plan = r_content resp,
                  synthesis_confidence = r_confidence resp,
                  models_synthesized = card (set (map tr_model rs)),
                  priority_levels = card (set (map tr_priority rs)),
                  comprehensive = True \<rparr>,
              models_used = models_needed (analyze_problem_requirements pc),
              model_switches = model_switch_count orch1,
              overall_confidence = calculate_multi_model_confidence rs \<rparr>"])
    apply (rule exI [of _ resp])
    using confidence_lower [OF nn] confidence_upper [of rs]
    by (simp add: e et g)
qed

text \<open>
  C4 (amended). The value computed by \<open>_calculate_multi_model_confidence\<close>, which
  \<open>execute_multi_model_analysis\<close> reports as \<open>overall_confidence\<close>, is for a non-empty
  list of results the minimum of 0.95 and the tier-weighted mean of the confidences
  (weights 1.0, 0.8, 0.6 for critical, high, medium; 0.5 for any other tier) plus the
  diversity bonus min(0.15, 0.03 times the number of distinct backends); it never exceeds
  0.95 and is non-negative when no confidence is negative. For three results of tiers
  critical, high, medium with confidences 0.9, 0.8, 0.7 on two distinct backends it is
  min(0.95, (0.9 * 1.0 + 0.8 * 0.8 + 0.7 * 0.6) / 2.4 + 0.06). Every run of the scheduler
  returns a result whose \<open>overall_confidence\<close> is this value and lies in [0, 0.95]; the
  \<open>synthesis_confidence\<close> of its plan is the confidence of the gateway's response to the
  master prompt.
\<close>

theorem overall_confidence_formula:
  "(rs \<noteq> [] \<longrightarrow>
      calculate_multi_model_confidence rs =
        min 0.95 (sum_list (map (\<lambda>r. tr_confidence r * tier_weight (tr_priority r)) rs)
                    / sum_list (map (\<lambda>r. tier_weight (tr_priority r)) rs)
                  + min 0.15 (0.03 * real (card (set (map tr_model rs))))))
   \<and> calculate_multi_model_confidence rs \<le> 0.95
   \<and> (list_all (\<lambda>r. 0 \<le> tr_confidence r) rs \<longrightarrow> 0 \<le> calculate_multi_model_confidence rs)
   \<and> (tr_priority r1 = ''critical'' \<and> tr_confidence r1 = 0.9
        \<and> tr_priority r2 = ''high'' \<and> tr_confidence r2 = 0.8
        \<and> tr_priority r3 = ''medium'' \<and> tr_confidence r3 = 0.7
        \<and> card (set (map tr_model [r1, r2, r3])) = 2
      \<longrightarrow> calculate_multi_model_confidence [r1, r2, r3] =
            min 0.95 ((0.9 * 1.0 + 0.8 * 0.8 + 0.7 * 0.6) / 2.4 + 0.06))
   \<and> (\<exists>res (resp :: llm_response).
         fst (execute_multi_model_analysis gw pc orch lm) = Inr res
         \<and> overall_confidence res = calculate_multi_model_confidence (task_results res)
         \<and> 0 \<le> overall_confidence res \<and> overall_confidence res \<le> 0.95
         \<and> fst (generate_response_for_agent gw ''master_synthesizer''
                  (master_synthesis_prompt (task_results res) pc) ''complex'' None
                  (snd (snd (execute_tasks gw pc
                     (recommended_tasks (analyze_problem_requirements pc)) [] orch lm))))
             = Inr resp
         \<and> synthesis_confidence (ar_final_solution res) = r_confidence resp)"
  using confidence_closed_form [of rs] confidence_upper [of rs] confidence_lower [of rs]
    three_example [of r1 r2 r3] pipeline_confidence [of gw pc orch lm]
  by blast

lemma three_results_models: "card (set (map tr_model three_results)) = 2"
  by (simp add: three_results_def card_insert_if)

lemma three_results_facts:
  "three_results \<noteq> []"
  "list_all (\<lambda>r. 0 \<le> tr_confidence r) three_results"
  "tr_priority (three_results ! 0) = ''critical'' \<and> tr_confidence (three_results ! 0) = 0.9
   \<and> tr_priority (three_results ! 1) = ''high'' \<and> tr_confidence (three_results ! 1) = 0.8
   \<and> tr_priority (three_results ! 2) = ''medium'' \<and> tr_confidence (three_results ! 2) = 0.7"
  "[three_results ! 0, three_results ! 1, three_results ! 2] = three_results"
  by (simp_all add: three_results_def)

theorem overall_confidence_formula_witness:
  "three_results \<noteq> []
   \<and> list_all (\<lambda>r. 0 \<le> tr_confidence r) three_results
   \<and> card (set (map tr_model three_results)) = 2
   \<and> calculate_multi_model_confidence three_results = 263 / 300
   \<and> 0 \<le> calculate_multi_model_confidence three_results
   \<and> calculate_multi_model_confidence three_results \<le> 0.95"
proof -
  note t = overall_confidence_formula [of three_results "three_results ! 0"
      "three_results ! 1" "three_results ! 2" gw_ok sample_disruption
      MultiModelOrchestrator_init LMStudioManager_init]
  have c: "card (set (map tr_model [three_results ! 0, three_results ! 1, three_results ! 2])) = 2"
    unfolding three_results_facts(4) by (rule three_results_models)
  from t three_results_facts(3) c
  have "calculate_multi_model_confidence [three_results ! 0, three_results ! 1, three_results ! 2]
          = min 0.95 ((0.9 * 1.0 + 0.8 * 0.8 + 0.7 * 0.6) / 2.4 + 0.06)"
    by blast
  then have v: "calculate_multi_model_confidence three_results = 263 / 300"
    unfolding three_results_facts(4) by simp
  from t three_results_facts(2)
  have lo: "0 \<le> calculate_multi_model_confidence three_results" by blast
  from t have hi: "calculate_multi_model_confidence three_results \<le> 0.95" by blast
  show ?thesis
    using three_results_facts(1,2) three_results_models v lo hi by blast
qed

lemma gw_ok_master:
  "generate_response_for_agent gw_ok ''master_synthesizer'' p ''complex'' None lm =
     (Inr \<lparr> r_content = ''ok'',
            r_provider = Some ''lm_studio'',
            r_active_model = Some (current_active_model lm),
            r_optimal_model = Some (get_optimal_model_for_agent ''master_synthesizer'' ''complex''),
            r_agent_type = Some ''master_synthesizer'',
            r_urgency = Some ''complex'',
            r_confidence = 0.7,
            r_error = None \<rparr>,
      lm\<lparr> requests := requests lm @ [agent_request lm ''master_synthesizer'' p ''complex'' None] \<rparr>)"
proof -
  have "calculate_confidence ''ok'' ''master_synthesizer'' = 0.7"
    by (simp add: calculate_confidence_def Let_def quality_indicators_def uncertainty_words_def
          any_in_def get_or_def lower_def lower_char_def)
  then show ?thesis
    by (simp add: generate_response_for_agent_eq gw_ok_def)
qed

text \<open>
  The synthesizer's \<open>synthesis_confidence\<close> is not the weighted value: for the three
  results on two backends the weighted value is 263/300, and the synthesizer reports the
  0.7 that the gateway's short reply scores.
\<close>

theorem synthesis_confidence_counterexample:
  "synthesis_confidence
     (projr (fst (synthesize_multi_model_results gw_ok three_results sample_disruption
                    LMStudioManager_init))) = 0.7
   \<and> card (set (map tr_model three_results)) = 2
   \<and> min 0.95 ((0.9 * 1.0 + 0.8 * 0.8 + 0.7 * 0.6) / 2.4 + min 0.15 (0.03 * 2)) = (263 / 300 :: real)"
proof -
  have "synthesis_confidence
     (projr (fst (synthesize_multi_model_results gw_ok three_results sample_disruption
                    LMStudioManager_init))) = 0.7"
    unfolding synthesize_multi_model_results_def gw_ok_master by simp
  then show ?thesis
    using three_results_models by simp
qed

end
